theory Spec2Isabelle
  imports Complex_Main "HOL-Library.Multiset" "HOL-Library.Char_ord" "HOL-Library.List_Lexorder"
begin

section \<open>Responses\<close>

text \<open>
  A handler answers with a JSON envelope. The model keeps the envelope's kind and
  message: \<open>Inr\<close> carries the data of \<^verbatim>\<open>get_json_result(data=...)\<close>, \<open>Inl\<close> one of the
  errors below. The message of the single-flight rejection interpolates a float, so it
  is kept structured (task id, progress, the label of the kind).
\<close>

datatype error =
    DataError string
  | ArgumentError string
  | AuthenticationError string
  | ServerError string
  | ExceptionError string
  | TaskInProgress string real string
  | InvalidStatusConditions "string set"
  | InvalidTypeConditions "string set"
  | Unhandled string

text \<open>
  \<^item> \<open>DataError m\<close>: \<^verbatim>\<open>get_data_error_result(message=m)\<close> and \<^verbatim>\<open>get_error_data_result(message=m)\<close>;
  \<^item> \<open>ArgumentError m\<close>, \<open>AuthenticationError m\<close>, \<open>ServerError m\<close>:
    \<^verbatim>\<open>get_json_result(data=False, message=m, code=...)\<close> with the code of that name;
  \<^item> \<open>ExceptionError m\<close>: \<^verbatim>\<open>server_error_response(e)\<close> with \<open>m = str(e)\<close>;
  \<^item> \<open>TaskInProgress task_id progress label\<close>: the message
    \<^verbatim>\<open>f"Task {task_id} in progress with status {task.progress}. A {label} Task is already running."\<close>;
  \<^item> \<open>InvalidStatusConditions\<close>, \<open>InvalidTypeConditions\<close>: the messages that join a set of
    rejected filter values;
  \<^item> \<open>Unhandled m\<close>: an exception that no handler code catches.
\<close>

section \<open>Data model\<close>

text \<open>
  Modelled from the spec: the enum \<^verbatim>\<open>TaskStatus\<close> of \<^verbatim>\<open>api.db\<close> is not among the sources. The
  spec gives the run-state as the enum \<^verbatim>\<open>UNSTARTED\<close>, \<^verbatim>\<open>RUNNING\<close>, \<^verbatim>\<open>CANCELLED\<close>, \<^verbatim>\<open>DONE\<close>,
  \<^verbatim>\<open>FAILED\<close>; the members carry the names the handlers use. The handlers compare a member's
  string value with the \<^verbatim>\<open>run\<close> string of a request or of a document row; a \<^verbatim>\<open>run\<close> string
  is modelled by the member it denotes, and \<open>OTHER\<close> stands for a string that is no
  member's value.
\<close>

datatype TaskStatus = UNSTART | RUNNING | CANCEL | DONE | FAIL | OTHER string

text \<open>
  Modelled from the spec: the row classes of \<^verbatim>\<open>api/db/db_models.py\<close> are not among the
  sources. The spec's data model gives a Task its "identity, owning document id (or a
  reserved synthetic aggregate document id for knowledge-base-wide jobs), priority, page
  range, progress, kind tag"; the record holds the fields the handlers read or write, and
  the list of document ids an aggregate Task carries. Progress is a real number (the float
  of the row, without NaN).
\<close>

record task =
  t_id :: string
  t_doc_id :: string
  t_progress :: real
  t_task_type :: string
  t_doc_ids :: "string list"
  t_priority :: int

text \<open>
  Modelled from the spec: a Document has "identity, owning knowledge-base id, assigned
  parser/pipeline id, ..., run-state, progress, progress message, chunk count, token count,
  cumulative processing duration"; \<^verbatim>\<open>status\<close> is the availability flag that
  \<^verbatim>\<open>change_status\<close> writes. An absent pipeline id is the empty string (both are false in
  Python).
\<close>

record document =
  d_id :: string
  d_kb_id :: string
  d_parser_id :: string
  d_pipeline_id :: string
  d_run :: TaskStatus
  d_status :: string
  d_progress :: real
  d_progress_msg :: string
  d_chunk_num :: int
  d_token_num :: int
  d_process_duration :: real

text \<open>
  Modelled from the spec: a Knowledgebase has "identity, tenant id, pagerank weight, and
  three optional pointers \<^verbatim>\<open>graphrag_task_id\<close>, \<^verbatim>\<open>raptor_task_id\<close>, \<^verbatim>\<open>mindmap_task_id\<close>", each with
  a "matching nullable completion timestamp"; the chunk and token counters are the
  "knowledge-base-level chunk/token aggregates", and \<open>k_field_map\<close> says whether the cached
  field map is there.
\<close>

record knowledgebase =
  k_id :: string
  k_tenant_id :: string
  k_chunk_num :: int
  k_token_num :: int
  k_field_map :: bool
  graphrag_task_id :: "string option"
  graphrag_task_finish_at :: "nat option"
  raptor_task_id :: "string option"
  raptor_task_finish_at :: "nat option"
  mindmap_task_id :: "string option"
  mindmap_task_finish_at :: "nat option"

text \<open>
  Modelled from the spec: an entry of the search index, as far as the handlers read or
  write it (the document it belongs to, \<^verbatim>\<open>available_int\<close>, the tag \<^verbatim>\<open>knowledge_graph_kwd\<close> and
  the payload \<^verbatim>\<open>content_with_weight\<close>), and the rows of the file-linkage and file tables.
\<close>

record chunk =
  c_doc_id :: string
  c_available_int :: int
  c_knowledge_graph_kwd :: string
  c_content_with_weight :: string

record file2document =
  f2d_file_id :: string
  f2d_document_id :: string

record file_row =
  f_id :: string
  f_source_type :: string

text \<open>
  Modelled from the spec: the stores behind the services, which the spec takes as "a
  record store with CRUD + filter operations", a search index and a blob store. The
  persistent state the handlers work on: the Document, Task, Knowledgebase,
  File2Document and File tables (lists of rows), the search index as partitions keyed by
  (tenant of \<^verbatim>\<open>search.index_name\<close>, knowledge base id), the blob store as a list of
  (bucket, name), and the warnings written by \<^verbatim>\<open>logging.warning\<close>.
\<close>

record store =
  documents :: "document list"
  tasks :: "task list"
  knowledgebases :: "knowledgebase list"
  index :: "((string \<times> string) \<times> chunk list) list"
  file2documents :: "file2document list"
  files :: "file_row list"
  blobs :: "(string \<times> string) list"
  logged :: "string list"

definition logging_warning :: "string \<Rightarrow> store \<Rightarrow> store" where
  "logging_warning m s = s\<lparr>logged := logged s @ [m]\<rparr>"

subsection \<open>Record-store operations\<close>

text \<open>
  Modelled from the spec: the services of \<^verbatim>\<open>api/db/services\<close> are not among the sources.
  The spec: \<^verbatim>\<open>getKB(id) \<rightarrow> KB|NotFound\<close>. The handlers receive \<^verbatim>\<open>(True, row)\<close> or
  \<^verbatim>\<open>(False, None)\<close>.
\<close>

definition KnowledgebaseService_get_by_id :: "store \<Rightarrow> string \<Rightarrow> knowledgebase option" where
  "KnowledgebaseService_get_by_id s i = find (\<lambda>k. k_id k = i) (knowledgebases s)"

text \<open>Modelled from the spec: \<^verbatim>\<open>getTask(task_id) \<rightarrow> Task|NotFound\<close>.\<close>

definition TaskService_get_by_id :: "store \<Rightarrow> string \<Rightarrow> task option" where
  "TaskService_get_by_id s i = find (\<lambda>t. t_id t = i) (tasks s)"

text \<open>Modelled from the spec: \<^verbatim>\<open>getDocument(id) \<rightarrow> Document|NotFound\<close>.\<close>

definition DocumentService_get_by_id :: "store \<Rightarrow> string \<Rightarrow> document option" where
  "DocumentService_get_by_id s i = find (\<lambda>d. d_id d = i) (documents s)"

text \<open>
  Modelled from the spec: \<^verbatim>\<open>updateKB(id, fields)\<close>, "used for pointer set/clear, pagerank,
  schema-cache clear". This is \<^verbatim>\<open>KnowledgebaseService.update_by_id(id, fields)\<close> on a write
  that goes through: every row of that id gets the fields.
\<close>

definition KnowledgebaseService_update_by_id ::
  "string \<Rightarrow> (knowledgebase \<Rightarrow> knowledgebase) \<Rightarrow> store \<Rightarrow> store" where
  "KnowledgebaseService_update_by_id i f s =
     s\<lparr>knowledgebases := map (\<lambda>k. if k_id k = i then f k else k) (knowledgebases s)\<rparr>"

text \<open>
  Modelled from the spec: \<^verbatim>\<open>listDocumentsByKB(kb_id, filters...) \<rightarrow> (list, total)\<close>, called to
  "list all documents of the knowledge base (unbounded page)". This is
  \<^verbatim>\<open>DocumentService.get_by_kb_id(kb_id, 0, 0, "create_time", False, "", [], [], [])\<close>: no
  filter is set, so the answer is every document of the knowledge base (the table is kept
  in creation order).
\<close>

definition DocumentService_get_by_kb_id :: "store \<Rightarrow> string \<Rightarrow> document list" where
  "DocumentService_get_by_kb_id s kbid = filter (\<lambda>d. d_kb_id d = kbid) (documents s)"

text \<open>
  Modelled from the spec: \<^verbatim>\<open>indexExists(partition, kb_id) \<rightarrow> bool\<close>. This is
  \<^verbatim>\<open>docStoreConn.indexExist(index_name(tenant), kb_id)\<close>.
\<close>

definition indexExist :: "store \<Rightarrow> string \<Rightarrow> string \<Rightarrow> bool" where
  "indexExist s tenant kbid = (map_of (index s) (tenant, kbid) \<noteq> None)"

text \<open>
  Modelled from the spec: \<^verbatim>\<open>delete(filter, partition, kb_id)\<close> of the search index. This is
  \<^verbatim>\<open>docStoreConn.delete(condition, index_name(tenant), kb_id)\<close>: the entries of that
  partition that meet the condition go.
\<close>

definition docStore_delete :: "(chunk \<Rightarrow> bool) \<Rightarrow> string \<Rightarrow> string \<Rightarrow> store \<Rightarrow> store" where
  "docStore_delete cond tenant kbid s =
     s\<lparr>index := map (\<lambda>(p, cs). if p = (tenant, kbid) then (p, filter (\<lambda>c. \<not> cond c) cs) else (p, cs))
                    (index s)\<rparr>"

section \<open>Knowledge-base handlers (\<^verbatim>\<open>api/apps/kb_app.py\<close>)\<close>

subsection \<open>Pipeline logs\<close>

record ListPipelineLogsRequest =
  operation_status :: "string list option"
  types :: "string list option"
  suffix :: "string list option"

text \<open>The query parameters of the two log listings (the dataset listing has no keywords).\<close>

record logs_query =
  q_kb_id :: string
  q_keywords :: string
  q_page :: int
  q_page_size :: int
  q_orderby :: string
  q_desc :: bool
  q_create_date_from :: string
  q_create_date_to :: string

text \<open>
  What the listings take from outside the modelled files: the two constant collections
  of \<^verbatim>\<open>api.db\<close> and the two queries of \<^verbatim>\<open>PipelineOperationLogService\<close>, which answer the
  logs with their total, or raise (\<open>Inl\<close> the exception's text).
\<close>

record logs_env =
  VALID_TASK_STATUS :: "string list"
  VALID_FILE_TYPES :: "string list"
  get_file_logs_by_kb_id ::
    "logs_query \<Rightarrow> ListPipelineLogsRequest \<Rightarrow> string + (string list \<times> nat)"
  get_dataset_logs_by_kb_id ::
    "logs_query \<Rightarrow> string list option \<Rightarrow> string + (string list \<times> nat)"

text \<open>Python's truth value of an optional list: \<^verbatim>\<open>None\<close> and \<^verbatim>\<open>[]\<close> are false.\<close>

fun truthy_list :: "'a list option \<Rightarrow> bool" where
  "truthy_list None = False"
| "truthy_list (Some xs) = (xs \<noteq> [])"

definition invalid_of :: "string list \<Rightarrow> string list option \<Rightarrow> string set" where
  "invalid_of valid xs = {x \<in> set (case xs of None \<Rightarrow> [] | Some l \<Rightarrow> l). x \<notin> set valid}"

text \<open>
  The two listings. The dates are compared as Python compares strings, lexicographically
  by character; the characters of the model are bytes, and UTF-8 byte strings are ordered
  as their code points are.
\<close>

definition list_pipeline_logs ::
  "logs_env \<Rightarrow> ListPipelineLogsRequest \<Rightarrow> logs_query \<Rightarrow> error + (nat \<times> string list)" where
  \<open>list_pipeline_logs env request q =
    (if q_kb_id q = [] then Inl (ArgumentError ''Lack of "KB ID"'')
     else if q_create_date_to q > q_create_date_from q
       then Inl (DataError ''Create data filter is abnormal.'')
     else if truthy_list (operation_status request)
             \<and> invalid_of (VALID_TASK_STATUS env) (operation_status request) \<noteq> {}
       then Inl (InvalidStatusConditions (invalid_of (VALID_TASK_STATUS env) (operation_status request)))
     else if truthy_list (types request)
             \<and> invalid_of (VALID_FILE_TYPES env) (types request) \<noteq> {}
       then Inl (InvalidTypeConditions (invalid_of (VALID_FILE_TYPES env) (types request)))
     else (case get_file_logs_by_kb_id env q request of
             Inl e \<Rightarrow> Inl (ExceptionError e)
           | Inr (logs, tol) \<Rightarrow> Inr (tol, logs)))\<close>

definition list_pipeline_dataset_logs ::
  "logs_env \<Rightarrow> string list option \<Rightarrow> logs_query \<Rightarrow> error + (nat \<times> string list)" where
  \<open>list_pipeline_dataset_logs env request_operation_status q =
    (if q_kb_id q = [] then Inl (ArgumentError ''Lack of "KB ID"'')
     else if q_create_date_to q > q_create_date_from q
       then Inl (DataError ''Create data filter is abnormal.'')
     else if truthy_list request_operation_status
             \<and> invalid_of (VALID_TASK_STATUS env) request_operation_status \<noteq> {}
       then Inl (InvalidStatusConditions (invalid_of (VALID_TASK_STATUS env) request_operation_status))
     else (case get_dataset_logs_by_kb_id env q request_operation_status of
             Inl e \<Rightarrow> Inl (ExceptionError e)
           | Inr (logs, tol) \<Rightarrow> Inr (tol, logs)))\<close>

subsection \<open>Aggregate dispatch: GraphRAG, RAPTOR, mind map\<close>

text \<open>
  \<^verbatim>\<open>run_graphrag\<close>, \<^verbatim>\<open>run_raptor\<close> and \<^verbatim>\<open>run_mindmap\<close> are the same text up to the pointer
  field they read and write, the task type they queue and the names in their messages.
  \<open>run_aggregate\<close> is that text with the kind as a parameter.
\<close>

datatype kind = Graphrag | Raptor | Mindmap

fun pointer :: "kind \<Rightarrow> knowledgebase \<Rightarrow> string option" where
  "pointer Graphrag kb = graphrag_task_id kb"
| "pointer Raptor kb = raptor_task_id kb"
| "pointer Mindmap kb = mindmap_task_id kb"

fun set_pointer :: "kind \<Rightarrow> string option \<Rightarrow> knowledgebase \<Rightarrow> knowledgebase" where
  "set_pointer Graphrag v kb = kb\<lparr>graphrag_task_id := v\<rparr>"
| "set_pointer Raptor v kb = kb\<lparr>raptor_task_id := v\<rparr>"
| "set_pointer Mindmap v kb = kb\<lparr>mindmap_task_id := v\<rparr>"

fun ty :: "kind \<Rightarrow> string" where
  "ty Graphrag = ''graphrag''"
| "ty Raptor = ''raptor''"
| "ty Mindmap = ''mindmap''"

fun task_name :: "kind \<Rightarrow> string" where
  "task_name Graphrag = ''GraphRAG''"
| "task_name Raptor = ''RAPTOR''"
| "task_name Mindmap = ''Mindmap''"

fun running_label :: "kind \<Rightarrow> string" where
  "running_label Graphrag = ''Graph''"
| "running_label Raptor = ''RAPTOR''"
| "running_label Mindmap = ''Mindmap''"

text \<open>
  What the knowledge-base handlers take from outside the modelled files: the id that
  \<^verbatim>\<open>get_uuid()\<close> hands to the next Task, the constant \<^verbatim>\<open>GRAPH_RAPTOR_FAKE_DOC_ID\<close>, whether
  the next \<^verbatim>\<open>KnowledgebaseService.update_by_id\<close> goes through, and the three values of
  \<^verbatim>\<open>PipelineTaskType\<close> that \<^verbatim>\<open>delete_kb_task\<close> accepts.
\<close>

record kb_env =
  get_uuid :: string
  GRAPH_RAPTOR_FAKE_DOC_ID :: string
  kb_update_ok :: bool
  PipelineTaskType_GRAPH_RAG :: string
  PipelineTaskType_RAPTOR :: string
  PipelineTaskType_MINDMAP :: string

text \<open>
  Modelled from the spec: \<^verbatim>\<open>queue_raptor_o_graphrag_tasks\<close> of
  \<^verbatim>\<open>api/db/services/document_service.py\<close> is not among the modelled files. The spec has it
  "create one Task addressed at a knowledge-base-wide synthetic document id, carrying the
  full list of real document ids as its unit of work, priority 0" and return that Task's
  id. The Task starts at progress 0.
\<close>

definition queue_raptor_o_graphrag_tasks ::
  "kb_env \<Rightarrow> document \<Rightarrow> string \<Rightarrow> int \<Rightarrow> string \<Rightarrow> string list \<Rightarrow> store \<Rightarrow> string \<times> store" where
  "queue_raptor_o_graphrag_tasks env doc task_ty priority fake_doc_id doc_ids s =
     (get_uuid env,
      s\<lparr>tasks := tasks s @
          [\<lparr>t_id = get_uuid env, t_doc_id = fake_doc_id, t_progress = 0, t_task_type = task_ty,
            t_doc_ids = doc_ids, t_priority = priority\<rparr>]\<rparr>)"

definition run_aggregate :: "kind \<Rightarrow> kb_env \<Rightarrow> string \<Rightarrow> store \<Rightarrow> (error + string) \<times> store" where
  \<open>run_aggregate k env kb_id s =
    (if kb_id = [] then (Inl (DataError ''Lack of "KB ID"''), s)
     else case KnowledgebaseService_get_by_id s kb_id of
       None \<Rightarrow> (Inl (DataError ''Invalid Knowledgebase ID''), s)
     | Some kb \<Rightarrow>
        let task_id = (case pointer k kb of None \<Rightarrow> [] | Some t \<Rightarrow> t);
            found = (if task_id \<noteq> [] then TaskService_get_by_id s task_id else None);
            s1 = (if task_id \<noteq> [] \<and> found = None
                  then logging_warning
                         (''A valid '' @ task_name k @ '' task id is expected for kb '' @ kb_id) s
                  else s);
            in_progress = (case found of
                             Some task \<Rightarrow> if t_progress task \<notin> set [-1, 1] then Some task else None
                           | None \<Rightarrow> None)
        in (case in_progress of
              Some task \<Rightarrow> (Inl (TaskInProgress task_id (t_progress task) (running_label k)), s1)
            | None \<Rightarrow>
               (case DocumentService_get_by_kb_id s1 kb_id of
                  [] \<Rightarrow> (Inl (DataError (''No documents in Knowledgebase '' @ kb_id)), s1)
                | sample_document # rest \<Rightarrow>
                   let document_ids = map d_id (sample_document # rest);
                       (new_id, s2) = queue_raptor_o_graphrag_tasks env sample_document (ty k) 0
                                        (GRAPH_RAPTOR_FAKE_DOC_ID env) document_ids s1;
                       s3 = (if kb_update_ok env
                             then KnowledgebaseService_update_by_id (k_id kb)
                                    (set_pointer k (Some new_id)) s2
                             else logging_warning
                                    (''Cannot save '' @ ty k @ ''_task_id for kb '' @ kb_id) s2)
                   in (Inr new_id, s3))))\<close>

definition run_graphrag :: "kb_env \<Rightarrow> string \<Rightarrow> store \<Rightarrow> (error + string) \<times> store" where
  "run_graphrag = run_aggregate Graphrag"

definition run_raptor :: "kb_env \<Rightarrow> string \<Rightarrow> store \<Rightarrow> (error + string) \<times> store" where
  "run_raptor = run_aggregate Raptor"

definition run_mindmap :: "kb_env \<Rightarrow> string \<Rightarrow> store \<Rightarrow> (error + string) \<times> store" where
  "run_mindmap = run_aggregate Mindmap"

subsection \<open>Unbinding a kind's pointer\<close>

definition delete_kb_task :: "kb_env \<Rightarrow> string \<Rightarrow> string \<Rightarrow> store \<Rightarrow> (error + bool) \<times> store" where
  \<open>delete_kb_task env kb_id pipeline_task_type s =
    (if kb_id = [] then (Inl (DataError ''Lack of "KB ID"''), s)
     else case KnowledgebaseService_get_by_id s kb_id of
       None \<Rightarrow> (Inr True, s)
     | Some kb \<Rightarrow>
        if pipeline_task_type = []
           \<or> pipeline_task_type \<notin> set [PipelineTaskType_GRAPH_RAG env, PipelineTaskType_RAPTOR env,
                                         PipelineTaskType_MINDMAP env]
        then (Inl (DataError ''Invalid task type''), s)
        else
          let (s1, clear) =
                (if pipeline_task_type = PipelineTaskType_GRAPH_RAG env
                 then (docStore_delete
                         (\<lambda>c. c_knowledge_graph_kwd c \<in> set [''graph'', ''subgraph'', ''entity'', ''relation''])
                         (k_tenant_id kb) kb_id s,
                       \<lambda>r. r\<lparr>graphrag_task_id := Some [], graphrag_task_finish_at := None\<rparr>)
                 else if pipeline_task_type = PipelineTaskType_RAPTOR env
                 then (s, \<lambda>r. r\<lparr>raptor_task_id := Some [], raptor_task_finish_at := None\<rparr>)
                 else (s, \<lambda>r. r\<lparr>mindmap_task_id := Some [], mindmap_task_finish_at := None\<rparr>))
          in if kb_update_ok env
             then (Inr True, KnowledgebaseService_update_by_id kb_id clear s1)
             else (Inl (ExceptionError (''Internal error: cannot delete task '' @ pipeline_task_type)), s1))\<close>

subsection \<open>Knowledge graph view\<close>

text \<open>
  The JSON payload of a knowledge-graph hit, as far as \<^verbatim>\<open>knowledge_graph\<close> reads it: an
  object that may hold a list \<^verbatim>\<open>nodes\<close> of objects with an \<^verbatim>\<open>id\<close> and an optional numeric
  \<^verbatim>\<open>pagerank\<close>, and a list \<^verbatim>\<open>edges\<close> of objects with a \<^verbatim>\<open>source\<close>, a \<^verbatim>\<open>target\<close> and an optional
  numeric \<^verbatim>\<open>weight\<close>. Payloads of another shape make the handler raise and are outside
  this type; numbers are reals (no NaN).
\<close>

record node =
  n_id :: string
  n_pagerank :: "real option"

record edge =
  e_source :: string
  e_target :: string
  e_weight :: "real option"

record graph_json =
  nodes :: "node list option"
  edges :: "edge list option"

text \<open>
  From outside the modelled files: the answer of \<^verbatim>\<open>KnowledgebaseService.accessible\<close> for
  the caller, the hits of \<^verbatim>\<open>settings.retrievaler.search\<close> in rank order, and \<^verbatim>\<open>json.loads\<close>
  (\<open>None\<close> when it raises).
\<close>

record kg_env =
  kb_accessible :: bool
  retrievaler_search :: "chunk list"
  json_loads :: "string \<Rightarrow> graph_json option"

text \<open>
  \<^verbatim>\<open>sorted(xs, key=k, reverse=True)\<close>: Python's sort is stable, and with \<^verbatim>\<open>reverse=True\<close>
  elements of equal key still keep their original order. That is the stable insertion
  sort by the negated key.
\<close>

definition sorted_reverse :: "('a \<Rightarrow> real) \<Rightarrow> 'a list \<Rightarrow> 'a list" where
  "sorted_reverse key xs = sort_key (\<lambda>x. - key x) xs"

text \<open>\<^verbatim>\<open>x.get("pagerank", 0)\<close> and \<^verbatim>\<open>x.get("weight", 0)\<close>.\<close>

definition get_pagerank :: "node \<Rightarrow> real" where
  "get_pagerank x = (case n_pagerank x of None \<Rightarrow> 0 | Some p \<Rightarrow> p)"

definition get_weight :: "edge \<Rightarrow> real" where
  "get_weight x = (case e_weight x of None \<Rightarrow> 0 | Some w \<Rightarrow> w)"

definition empty_json :: graph_json where
  "empty_json = \<lparr>nodes = None, edges = None\<rparr>"

definition knowledge_graph :: "kg_env \<Rightarrow> string \<Rightarrow> store \<Rightarrow> error + (string \<Rightarrow> graph_json option)" where
  "knowledge_graph env kb_id s =
    (if \<not> kb_accessible env then Inl (AuthenticationError ''No authorization.'')
     else case KnowledgebaseService_get_by_id s kb_id of
       None \<Rightarrow> Inl (Unhandled ''AttributeError'')
     | Some kb \<Rightarrow>
        let obj = [''graph'' \<mapsto> empty_json, ''mind_map'' \<mapsto> empty_json] in
        if \<not> indexExist s (k_tenant_id kb) kb_id then Inr obj
        else
          let sres = retrievaler_search env in
          if length sres = 0 then Inr obj
          else
            let obj1 = fold (\<lambda>hit acc.
                               case json_loads env (c_content_with_weight hit) of
                                 None \<Rightarrow> acc
                               | Some content_json \<Rightarrow> acc(c_knowledge_graph_kwd hit \<mapsto> content_json))
                         (take 1 sres) obj;
                graph = (case obj1 ''graph'' of None \<Rightarrow> empty_json | Some g \<Rightarrow> g)
            in (case nodes graph of
                  None \<Rightarrow> Inr obj1
                | Some ns \<Rightarrow>
                   let graph1 = graph\<lparr>nodes := Some (take 256 (sorted_reverse get_pagerank ns))\<rparr>
                   in (case edges graph1 of
                         None \<Rightarrow> Inr (obj1(''graph'' \<mapsto> graph1))
                       | Some es \<Rightarrow>
                          let node_id_set = set (map n_id (take 256 (sorted_reverse get_pagerank ns)));
                              filtered_edges =
                                filter (\<lambda>e. e_source e \<noteq> e_target e \<and> e_source e \<in> node_id_set
                                            \<and> e_target e \<in> node_id_set) es
                          in Inr (obj1(''graph'' \<mapsto>
                                   graph1\<lparr>edges := Some (take 128 (sorted_reverse get_weight filtered_edges))\<rparr>)))))"

section \<open>Document handlers (\<^verbatim>\<open>api/apps/document_app.py\<close>)\<close>

text \<open>What a call into a service or into the index can do: answer a truth value, or raise.\<close>

datatype call_result = Returned bool | Raised string

text \<open>The service calls inside the loop of \<^verbatim>\<open>rm\<close>, in the order of the source.\<close>

datatype rm_call =
    GetById | GetTenantId | GetStorageAddress | TaskFilterDelete | RemoveDocument
  | GetByDocumentId | FileFilterDelete | DeleteByDocumentId | StorageRm | CountByKbId
  | DeleteFieldMap

text \<open>
  What the document handlers take from outside the modelled files:
  \<^item> \<open>accessible\<close>, \<open>accessible4deletion\<close>: the answers of \<^verbatim>\<open>DocumentService.accessible\<close> and
    \<^verbatim>\<open>DocumentService.accessible4deletion\<close> for the caller;
  \<^item> \<open>document_update\<close>, \<open>docStore_update\<close>: in \<^verbatim>\<open>change_status\<close>, what the write of the
    document row and the write of \<^verbatim>\<open>available_int\<close> into the index do for a document id;
  \<^item> \<open>ParserType_TABLE\<close>, \<open>FileSource_KNOWLEDGEBASE\<close>: constants of \<^verbatim>\<open>api.db\<close>;
  \<^item> \<open>get_storage_address\<close>: \<^verbatim>\<open>File2DocumentService.get_storage_address\<close>, bucket and name;
  \<^item> \<open>queue_tasks\<close>, \<open>queue_dataflow\<close>, \<open>new_uuid\<close>: the two enqueuers of
    \<^verbatim>\<open>api/db/services/task_service.py\<close>, as transformers of the store, and \<^verbatim>\<open>get_uuid()\<close>;
  \<^item> \<open>faults\<close>: in \<^verbatim>\<open>rm\<close>, the exception (its text) that a service call raises for a
    document id, if any.
\<close>

record doc_env =
  accessible :: "string \<Rightarrow> bool"
  accessible4deletion :: "string \<Rightarrow> bool"
  document_update :: "string \<Rightarrow> call_result"
  docStore_update :: "string \<Rightarrow> call_result"
  ParserType_TABLE :: string
  FileSource_KNOWLEDGEBASE :: string
  get_storage_address :: "store \<Rightarrow> string \<Rightarrow> string \<times> string"
  queue_tasks :: "document \<Rightarrow> string \<Rightarrow> string \<Rightarrow> string \<Rightarrow> int \<Rightarrow> store \<Rightarrow> store"
  queue_dataflow :: "string \<Rightarrow> string \<Rightarrow> string \<Rightarrow> string \<Rightarrow> store \<Rightarrow> store"
  new_uuid :: string
  faults :: "rm_call \<Rightarrow> string \<Rightarrow> string option"

subsection \<open>Record-store operations of the document handlers\<close>

text \<open>
  Modelled from the spec: \<^verbatim>\<open>updateDocument(id, fields)\<close>. This is
  \<^verbatim>\<open>DocumentService.update_by_id(id, fields)\<close> on a write that goes through.
\<close>

definition DocumentService_update_by_id ::
  "string \<Rightarrow> (document \<Rightarrow> document) \<Rightarrow> store \<Rightarrow> store" where
  "DocumentService_update_by_id i f s =
     s\<lparr>documents := map (\<lambda>d. if d_id d = i then f d else d) (documents s)\<rparr>"

text \<open>
  Modelled from the spec: \<^verbatim>\<open>deleteTasks(filter)\<close>. This is
  \<^verbatim>\<open>TaskService.filter_delete([Task.doc_id == doc_id])\<close>.
\<close>

definition TaskService_filter_delete :: "(task \<Rightarrow> bool) \<Rightarrow> store \<Rightarrow> store" where
  "TaskService_filter_delete cond s = s\<lparr>tasks := filter (\<lambda>t. \<not> cond t) (tasks s)\<rparr>"

text \<open>
  Modelled from the spec: \<^verbatim>\<open>update(filter, patch, partition, kb_id)\<close> of the search index,
  "a single-field index update (\<^verbatim>\<open>available_int\<close>)". This is
  \<^verbatim>\<open>docStoreConn.update({"doc_id": doc_id}, {"available_int": v}, index_name(tenant), kb_id)\<close>
  on a write that goes through.
\<close>

definition docStore_set_available :: "string \<Rightarrow> int \<Rightarrow> string \<Rightarrow> string \<Rightarrow> store \<Rightarrow> store" where
  "docStore_set_available doc_id v tenant kbid s =
     s\<lparr>index := map (\<lambda>(p, cs). if p = (tenant, kbid)
                                then (p, map (\<lambda>c. if c_doc_id c = doc_id then c\<lparr>c_available_int := v\<rparr> else c) cs)
                                else (p, cs))
                    (index s)\<rparr>"

text \<open>
  Modelled from the spec: \<^verbatim>\<open>DocumentService.get_tenant_id\<close> is not among the modelled
  files. A Document carries its "owning knowledge-base id" and a Knowledgebase its
  "tenant id"; the tenant of a document is the tenant of its knowledge base, and there is
  none when a row is missing or the tenant id is empty.
\<close>

definition DocumentService_get_tenant_id :: "store \<Rightarrow> string \<Rightarrow> string option" where
  "DocumentService_get_tenant_id s i =
     (case DocumentService_get_by_id s i of
        None \<Rightarrow> None
      | Some doc \<Rightarrow>
         (case KnowledgebaseService_get_by_id s (d_kb_id doc) of
            None \<Rightarrow> None
          | Some kb \<Rightarrow> if k_tenant_id kb = [] then None else Some (k_tenant_id kb)))"

text \<open>
  Modelled from the spec: the count behind "the knowledge base's last \<^verbatim>\<open>DONE\<close> table-typed
  document". This is \<^verbatim>\<open>DocumentService.count_by_kb_id(kb_id, "", [TaskStatus.DONE], [])\<close>: the
  number of documents of the knowledge base whose run-state is \<open>DONE\<close>.
\<close>

definition DocumentService_count_by_kb_id :: "store \<Rightarrow> string \<Rightarrow> int" where
  "DocumentService_count_by_kb_id s kbid =
     int (length (filter (\<lambda>d. d_kb_id d = kbid \<and> d_run d = DONE) (documents s)))"

text \<open>
  Modelled from the spec: "clear the knowledge base's cached field-map (schema cache
  invalidation)". This is \<^verbatim>\<open>KnowledgebaseService.delete_field_map(kb_id)\<close>.
\<close>

definition KnowledgebaseService_delete_field_map :: "string \<Rightarrow> store \<Rightarrow> store" where
  "KnowledgebaseService_delete_field_map kbid s =
     KnowledgebaseService_update_by_id kbid (\<lambda>k. k\<lparr>k_field_map := False\<rparr>) s"

text \<open>
  Modelled from the spec: \<^verbatim>\<open>cancel_all_task_of\<close> of \<^verbatim>\<open>api/db/services/task_service.py\<close> is
  not among the modelled files. The spec: "Cancellation deletes all outstanding Task rows
  for the document".
\<close>

definition cancel_all_task_of :: "string \<Rightarrow> store \<Rightarrow> store" where
  "cancel_all_task_of doc_id s = TaskService_filter_delete (\<lambda>t. t_doc_id t = doc_id) s"

text \<open>
  Modelled from the spec: \<^verbatim>\<open>DocumentService.clear_chunk_num_when_rerun\<close> is not among the
  modelled files. The spec: a destructive rerun "must roll back its contribution to
  knowledge-base-level chunk/token aggregates before resetting its own counters"; the
  counters of the document's knowledge base go down by the document's chunk and token
  counts.
\<close>

definition clear_chunk_num_when_rerun :: "string \<Rightarrow> store \<Rightarrow> store" where
  "clear_chunk_num_when_rerun doc_id s =
     (case DocumentService_get_by_id s doc_id of
        None \<Rightarrow> s
      | Some doc \<Rightarrow>
         KnowledgebaseService_update_by_id (d_kb_id doc)
           (\<lambda>k. k\<lparr>k_chunk_num := k_chunk_num k - d_chunk_num doc,
                   k_token_num := k_token_num k - d_token_num doc\<rparr>) s)"

text \<open>
  Modelled from the spec: \<^verbatim>\<open>DocumentService.remove_document\<close> is not among the modelled
  files. The spec: "Delete all index entries scoped to \<^verbatim>\<open>doc_id\<close> within the tenant's index
  partition for that knowledge base", and the document is "logically removed"; the answer
  is whether a Document row went.
\<close>

definition remove_document :: "document \<Rightarrow> string \<Rightarrow> store \<Rightarrow> bool \<times> store" where
  "remove_document doc tenant_id s =
     (let s1 = docStore_delete (\<lambda>c. c_doc_id c = d_id doc) tenant_id (d_kb_id doc) s
      in (\<exists>d \<in> set (documents s1). d_id d = d_id doc,
          s1\<lparr>documents := filter (\<lambda>d. d_id d \<noteq> d_id doc) (documents s1)\<rparr>))"

subsection \<open>\<^verbatim>\<open>change_status\<close>\<close>

text \<open>An entry of the result map: \<^verbatim>\<open>{"error": m}\<close> or \<^verbatim>\<open>{"status": status}\<close>.\<close>

datatype status_entry = EntryError string | EntryStatus string

text \<open>
  The body of the loop for one document id. The lookups read the store and do not raise;
  the two writes answer as the environment says, and an exception of theirs is caught by
  the \<^verbatim>\<open>except\<close> clause of the body.
\<close>

definition change_status_one ::
  "doc_env \<Rightarrow> string \<Rightarrow> string \<Rightarrow> (string \<Rightarrow> status_entry option) \<times> store
     \<Rightarrow> (string \<Rightarrow> status_entry option) \<times> store" where
  "change_status_one env status doc_id = (\<lambda>(result, s).
     if \<not> accessible env doc_id then (result(doc_id \<mapsto> EntryError ''No authorization.''), s)
     else case DocumentService_get_by_id s doc_id of
       None \<Rightarrow> (result(doc_id \<mapsto> EntryError ''No authorization.''), s)
     | Some doc \<Rightarrow>
        (case KnowledgebaseService_get_by_id s (d_kb_id doc) of
           None \<Rightarrow> (result(doc_id \<mapsto> EntryError ''Can't find this knowledgebase!''), s)
         | Some kb \<Rightarrow>
            (case document_update env doc_id of
               Raised e \<Rightarrow> (result(doc_id \<mapsto> EntryError (''Internal server error: '' @ e)), s)
             | Returned False \<Rightarrow>
                 (result(doc_id \<mapsto> EntryError ''Database error (Document update)!''), s)
             | Returned True \<Rightarrow>
                let s1 = DocumentService_update_by_id doc_id (\<lambda>d. d\<lparr>d_status := status\<rparr>) s;
                    status_int = (if status = ''1'' then 1 else 0)
                in (case docStore_update env doc_id of
                      Raised e \<Rightarrow> (result(doc_id \<mapsto> EntryError (''Internal server error: '' @ e)), s1)
                    | Returned ok \<Rightarrow>
                       let result1 = (if \<not> ok
                                      then result(doc_id \<mapsto> EntryError ''Database error (docStore update)!'')
                                      else result);
                           s2 = (if ok
                                 then docStore_set_available doc_id status_int (k_tenant_id kb) (d_kb_id doc) s1
                                 else s1)
                       in (result1(doc_id \<mapsto> EntryStatus status), s2)))))"

definition change_status ::
  "doc_env \<Rightarrow> string list \<Rightarrow> string \<Rightarrow> store \<Rightarrow> (error + (string \<Rightarrow> status_entry option)) \<times> store" where
  \<open>change_status env doc_ids status s =
    (if status \<notin> set [''0'', ''1'']
     then (Inl (ArgumentError ''"Status" must be either 0 or 1!''), s)
     else let (result, s1) = fold (change_status_one env status) doc_ids (Map.empty, s)
          in (Inr result, s1))\<close>

subsection \<open>\<^verbatim>\<open>run\<close>\<close>

record RunDocumentRequest =
  r_doc_ids :: "string list"
  r_run :: TaskStatus
  r_delete :: bool

text \<open>
  The fields that \<^verbatim>\<open>run\<close> writes with \<^verbatim>\<open>DocumentService.update_by_id(id, info)\<close>: always
  \<^verbatim>\<open>run\<close> and \<^verbatim>\<open>progress\<close>, and for a destructive rerun also \<^verbatim>\<open>progress_msg\<close>, \<^verbatim>\<open>chunk_num\<close>
  and \<^verbatim>\<open>token_num\<close>.
\<close>

definition info :: "RunDocumentRequest \<Rightarrow> document \<Rightarrow> document" where
  "info req d =
     (let d1 = d\<lparr>d_run := r_run req, d_progress := 0\<rparr>
      in if r_run req = RUNNING \<and> r_delete req
         then d1\<lparr>d_progress_msg := [], d_chunk_num := 0, d_token_num := 0\<rparr>
         else d1)"

text \<open>
  The body of the loop of \<^verbatim>\<open>run\<close> for one document id: \<open>Some e\<close> is an early
  \<^verbatim>\<open>return\<close> of the handler with that error, \<open>None\<close> the end of the iteration. The map is
  \<^verbatim>\<open>kb_table_num_map\<close>. Exceptions of the service calls (the \<^verbatim>\<open>except\<close> clause around the
  whole loop) are not modelled.
\<close>

definition run_one ::
  "doc_env \<Rightarrow> RunDocumentRequest \<Rightarrow> string \<Rightarrow> (string \<Rightarrow> int option) \<Rightarrow> store
     \<Rightarrow> error option \<times> (string \<Rightarrow> int option) \<times> store" where
  "run_one env req i kb_table_num_map s =
    (case DocumentService_get_tenant_id s i of
       None \<Rightarrow> (Some (DataError ''Tenant not found!''), kb_table_num_map, s)
     | Some tenant_id \<Rightarrow>
    (case DocumentService_get_by_id s i of
       None \<Rightarrow> (Some (DataError ''Document not found!''), kb_table_num_map, s)
     | Some doc \<Rightarrow>
        if r_run req = CANCEL \<and> d_run doc \<noteq> RUNNING
        then (Some (DataError ''Cannot cancel a task that is not in RUNNING status''),
              kb_table_num_map, s)
        else
          let s1 = (if r_run req = CANCEL then cancel_all_task_of i s else s);
              s2 = (if r_delete req \<and> r_run req = RUNNING \<and> d_run doc = DONE
                    then clear_chunk_num_when_rerun (d_id doc) s1 else s1);
              s3 = DocumentService_update_by_id i (info req) s2;
              s4 = (if r_delete req
                    then let s' = TaskService_filter_delete (\<lambda>t. t_doc_id t = i) s3
                         in if indexExist s' tenant_id (d_kb_id doc)
                            then docStore_delete (\<lambda>c. c_doc_id c = i) tenant_id (d_kb_id doc) s'
                            else s'
                    else s3)
          in if r_run req = RUNNING
             then
               if d_parser_id doc = ParserType_TABLE env \<and> d_kb_id doc = []
               then (None, kb_table_num_map, s4)
               else
                 let (m5, s5) =
                       (if d_parser_id doc = ParserType_TABLE env \<and> kb_table_num_map (d_kb_id doc) = None
                        then let count = DocumentService_count_by_kb_id s4 (d_kb_id doc)
                             in (kb_table_num_map(d_kb_id doc \<mapsto> count),
                                 if count \<le> 0 then KnowledgebaseService_delete_field_map (d_kb_id doc) s4
                                 else s4)
                        else (kb_table_num_map, s4))
                 in if d_pipeline_id doc \<noteq> []
                    then (None, m5, queue_dataflow env tenant_id (d_pipeline_id doc) (new_uuid env) i s5)
                    else let (bucket, name) = get_storage_address env s5 (d_id doc)
                         in (None, m5, queue_tasks env doc tenant_id bucket name 0 s5)
             else (None, kb_table_num_map, s4)))"

fun run_loop ::
  "doc_env \<Rightarrow> RunDocumentRequest \<Rightarrow> string list \<Rightarrow> (string \<Rightarrow> int option) \<Rightarrow> store
     \<Rightarrow> (error + bool) \<times> store" where
  "run_loop env req [] m s = (Inr True, s)"
| "run_loop env req (i # ids) m s =
     (case run_one env req i m s of
        (Some e, m1, s1) \<Rightarrow> (Inl e, s1)
      | (None, m1, s1) \<Rightarrow> run_loop env req ids m1 s1)"

definition run :: "doc_env \<Rightarrow> RunDocumentRequest \<Rightarrow> store \<Rightarrow> (error + bool) \<times> store" where
  "run env req s =
     (if \<exists>doc_id \<in> set (r_doc_ids req). \<not> accessible env doc_id
      then (Inl (AuthenticationError ''No authorization.''), s)
      else run_loop env req (r_doc_ids req) Map.empty s)"

subsection \<open>\<^verbatim>\<open>rm\<close>\<close>

text \<open>
  The loop of \<^verbatim>\<open>rm\<close> wraps its body in \<^verbatim>\<open>try ... except Exception as e: errors += str(e)\<close>,
  and the body also leaves the handler by \<^verbatim>\<open>return\<close>. A step of the body therefore ends
  in one of three ways, and in each the store and \<^verbatim>\<open>kb_table_num_map\<close> are as the step
  left them.
\<close>

datatype 'a flow = Next 'a | Raise string | Return error

type_synonym rm_state = "store \<times> (string \<Rightarrow> int option)"

definition then_do ::
  "(rm_state \<Rightarrow> 'a flow \<times> rm_state) \<Rightarrow> ('a \<Rightarrow> rm_state \<Rightarrow> 'b flow \<times> rm_state)
     \<Rightarrow> rm_state \<Rightarrow> 'b flow \<times> rm_state" where
  "then_do m f st =
     (case m st of
        (Next a, st1) \<Rightarrow> f a st1
      | (Raise e, st1) \<Rightarrow> (Raise e, st1)
      | (Return r, st1) \<Rightarrow> (Return r, st1))"

text \<open>A service call for a document id: it raises if the environment says so, else it acts.\<close>

definition call ::
  "doc_env \<Rightarrow> rm_call \<Rightarrow> string \<Rightarrow> (rm_state \<Rightarrow> 'a \<times> rm_state) \<Rightarrow> rm_state \<Rightarrow> 'a flow \<times> rm_state" where
  "call env c doc_id act st =
     (case faults env c doc_id of
        Some e \<Rightarrow> (Raise e, st)
      | None \<Rightarrow> (case act st of (a, st1) \<Rightarrow> (Next a, st1)))"

definition skip :: "'a \<Rightarrow> rm_state \<Rightarrow> 'a flow \<times> rm_state" where
  "skip a st = (Next a, st)"

definition return_error :: "error \<Rightarrow> rm_state \<Rightarrow> 'a flow \<times> rm_state" where
  "return_error r st = (Return r, st)"

text \<open>
  The second half of the loop body (source lines 498 to 514), after the document row is
  gone: the file linkage, the blob, and the bookkeeping for table documents. \<open>b\<close> and \<open>n\<close>
  are the storage address read at the start of the body.
\<close>

definition rm_unlink ::
  "doc_env \<Rightarrow> string \<Rightarrow> document \<Rightarrow> string \<Rightarrow> string \<Rightarrow> rm_state \<Rightarrow> unit flow \<times> rm_state" where
  "rm_unlink env doc_id doc b n =
    then_do (call env GetByDocumentId doc_id
               (\<lambda>(s, m). (filter (\<lambda>r. f2d_document_id r = doc_id) (file2documents s), (s, m)))) (\<lambda>f2d.
    then_do (case f2d of
               [] \<Rightarrow> skip 0
             | r # _ \<Rightarrow>
                call env FileFilterDelete doc_id
                  (\<lambda>(s, m).
                     (length (filter (\<lambda>f. f_source_type f = FileSource_KNOWLEDGEBASE env
                                           \<and> f_id f = f2d_file_id r) (files s)),
                      (s\<lparr>files := filter (\<lambda>f. \<not> (f_source_type f = FileSource_KNOWLEDGEBASE env
                                                    \<and> f_id f = f2d_file_id r)) (files s)\<rparr>, m))))
            (\<lambda>deleted_file_count.
    then_do (call env DeleteByDocumentId doc_id
               (\<lambda>(s, m). ((), (s\<lparr>file2documents :=
                                     filter (\<lambda>r. f2d_document_id r \<noteq> doc_id) (file2documents s)\<rparr>, m)))) (\<lambda>_.
    then_do (if deleted_file_count > 0
             then call env StorageRm doc_id
                    (\<lambda>(s, m). ((), (s\<lparr>blobs := removeAll (b, n) (blobs s)\<rparr>, m)))
             else skip ()) (\<lambda>_.
    if d_parser_id doc = ParserType_TABLE env
    then
      then_do (\<lambda>(s, m).
                 if m (d_kb_id doc) = None
                 then call env CountByKbId doc_id
                        (\<lambda>(s, m). ((), (s, m(d_kb_id doc \<mapsto> DocumentService_count_by_kb_id s (d_kb_id doc)))))
                        (s, m)
                 else skip () (s, m)) (\<lambda>_.
      then_do (\<lambda>(s, m). skip () (s, m(d_kb_id doc \<mapsto> (case m (d_kb_id doc) of None \<Rightarrow> 0 | Some c \<Rightarrow> c) - 1)))
        (\<lambda>_ (s, m).
           if (case m (d_kb_id doc) of None \<Rightarrow> 0 | Some c \<Rightarrow> c) \<le> 0
           then call env DeleteFieldMap doc_id
                  (\<lambda>(s, m). ((), (KnowledgebaseService_delete_field_map (d_kb_id doc) s, m))) (s, m)
           else skip () (s, m)))
    else skip ()))))"

text \<open>
  The body of the loop for one document id (source lines 485 to 514): the lookups, the
  deletion of the Task rows and of the document, then \<open>rm_unlink\<close>.
\<close>

definition rm_one :: "doc_env \<Rightarrow> string \<Rightarrow> rm_state \<Rightarrow> unit flow \<times> rm_state" where
  "rm_one env doc_id =
    then_do (call env GetById doc_id (\<lambda>(s, m). (DocumentService_get_by_id s doc_id, (s, m)))) (\<lambda>e_doc.
    case e_doc of
      None \<Rightarrow> return_error (DataError ''Document not found!'')
    | Some doc \<Rightarrow>
    then_do (call env GetTenantId doc_id (\<lambda>(s, m). (DocumentService_get_tenant_id s doc_id, (s, m)))) (\<lambda>t.
    case t of
      None \<Rightarrow> return_error (DataError ''Tenant not found!'')
    | Some tenant_id \<Rightarrow>
    then_do (call env GetStorageAddress doc_id (\<lambda>(s, m). (get_storage_address env s doc_id, (s, m)))) (\<lambda>(b, n).
    then_do (call env TaskFilterDelete doc_id
               (\<lambda>(s, m). ((), (TaskService_filter_delete (\<lambda>t. t_doc_id t = doc_id) s, m)))) (\<lambda>_.
    then_do (call env RemoveDocument doc_id
               (\<lambda>(s, m). case remove_document doc tenant_id s of (ok, s1) \<Rightarrow> (ok, (s1, m)))) (\<lambda>removed.
    if \<not> removed then return_error (DataError ''Database error (Document removal)!'')
    else rm_unlink env doc_id doc b n)))))"

text \<open>
  The loop with its accumulator \<^verbatim>\<open>errors\<close>, and the two answers after it. An early
  \<^verbatim>\<open>return\<close> of the body ends the handler at once.
\<close>

fun rm_loop :: "doc_env \<Rightarrow> string list \<Rightarrow> string \<Rightarrow> rm_state \<Rightarrow> (error + bool) \<times> store" where
  "rm_loop env [] errors (s, m) = (if errors \<noteq> [] then Inl (ServerError errors) else Inr True, s)"
| "rm_loop env (doc_id # doc_ids) errors st =
     (case rm_one env doc_id st of
        (Next _, st1) \<Rightarrow> rm_loop env doc_ids errors st1
      | (Raise e, st1) \<Rightarrow> rm_loop env doc_ids (errors @ e) st1
      | (Return r, (s1, m1)) \<Rightarrow> (Inl r, s1))"

text \<open>
  The handler: the authorization pass over all ids, then the loop.
  \<^verbatim>\<open>FileService.get_root_folder\<close> and \<^verbatim>\<open>FileService.init_knowledgebase_docs\<close> between the two
  only set up the caller's folders, which the model does not hold.
\<close>

definition rm :: "doc_env \<Rightarrow> string list \<Rightarrow> store \<Rightarrow> (error + bool) \<times> store" where
  "rm env doc_ids s =
     (if \<exists>doc_id \<in> set doc_ids. \<not> accessible4deletion env doc_id
      then (Inl (AuthenticationError ''No authorization.''), s)
      else rm_loop env doc_ids [] (s, Map.empty))"

section \<open>Auxiliary notions for the proofs\<close>

text \<open>Facts that say what an operation on the store leaves alone.\<close>

named_theorems frame

text \<open>A document id resolves to a document row whose knowledge base has a row.\<close>

definition resolvable :: "store \<Rightarrow> string \<Rightarrow> bool" where
  "resolvable s doc_id =
     (\<exists>doc kb. DocumentService_get_by_id s doc_id = Some doc
               \<and> KnowledgebaseService_get_by_id s (d_kb_id doc) = Some kb)"


text \<open>
  Two stores agree on what the second half of the body of \<^verbatim>\<open>rm\<close> does not touch: the
  Document rows, the Task rows, the index, and the ids and tenants of the knowledge bases.
\<close>

definition same_core :: "store \<Rightarrow> store \<Rightarrow> bool" where
  "same_core s s1 \<longleftrightarrow>
     documents s1 = documents s \<and> tasks s1 = tasks s \<and> index s1 = index s
     \<and> map (\<lambda>k. (k_id k, k_tenant_id k)) (knowledgebases s1)
         = map (\<lambda>k. (k_id k, k_tenant_id k)) (knowledgebases s)"

text \<open>A step keeps the core of the store and does not leave the handler.\<close>

definition keeps :: "(rm_state \<Rightarrow> 'a flow \<times> rm_state) \<Rightarrow> bool" where
  "keeps step \<longleftrightarrow>
     (\<forall>st fl st1. step st = (fl, st1) \<longrightarrow> same_core (fst st) (fst st1) \<and> (\<forall>r. fl \<noteq> Return r))"



section \<open>Example data\<close>

text \<open>Concrete inputs for the closed theorems below.\<close>

definition ex_logs_env :: logs_env where
  "ex_logs_env = \<lparr>VALID_TASK_STATUS = [''0'', ''1'', ''2'', ''3'', ''4''], VALID_FILE_TYPES = [''pdf'', ''doc''],
     get_file_logs_by_kb_id = (\<lambda>q r. Inr ([], 0)), get_dataset_logs_by_kb_id = (\<lambda>q r. Inr ([], 0))\<rparr>"

definition ex_logs_request :: ListPipelineLogsRequest where
  "ex_logs_request = \<lparr>operation_status = Some [], types = Some [], suffix = Some []\<rparr>"

definition ex_logs_query :: "string \<Rightarrow> string \<Rightarrow> logs_query" where
  "ex_logs_query date_from date_to =
     \<lparr>q_kb_id = ''kb1'', q_keywords = [], q_page = 0, q_page_size = 0, q_orderby = ''create_time'',
      q_desc = True, q_create_date_from = date_from, q_create_date_to = date_to\<rparr>"

definition ex_kb :: knowledgebase where
  "ex_kb = \<lparr>k_id = ''kb1'', k_tenant_id = ''tenant1'', k_chunk_num = 10, k_token_num = 100,
     k_field_map = True, graphrag_task_id = Some ''t1'', graphrag_task_finish_at = None,
     raptor_task_id = None, raptor_task_finish_at = None,
     mindmap_task_id = Some [], mindmap_task_finish_at = None\<rparr>"

definition ex_task :: "real \<Rightarrow> task" where
  "ex_task p = \<lparr>t_id = ''t1'', t_doc_id = ''x'', t_progress = p, t_task_type = ''graphrag'',
     t_doc_ids = [''d1''], t_priority = 0\<rparr>"

definition ex_doc :: "string \<Rightarrow> TaskStatus \<Rightarrow> document" where
  "ex_doc i r = \<lparr>d_id = i, d_kb_id = ''kb1'', d_parser_id = ''naive'', d_pipeline_id = [],
     d_run = r, d_status = ''1'', d_progress = 1, d_progress_msg = ''done'', d_chunk_num = 4,
     d_token_num = 40, d_process_duration = 5\<rparr>"

definition ex_chunk :: "string \<Rightarrow> chunk" where
  "ex_chunk i = \<lparr>c_doc_id = i, c_available_int = 1, c_knowledge_graph_kwd = [], c_content_with_weight = ''text''\<rparr>"

definition ex_store :: "document list \<Rightarrow> real \<Rightarrow> store" where
  "ex_store docs p =
     \<lparr>documents = docs,
      tasks = [ex_task p, \<lparr>t_id = ''t2'', t_doc_id = ''d1'', t_progress = 0, t_task_type = ''parse'',
                            t_doc_ids = [], t_priority = 0\<rparr>],
      knowledgebases = [ex_kb],
      index = [((''tenant1'', ''kb1''), [ex_chunk ''d1'', ex_chunk ''d2''])],
      file2documents = [\<lparr>f2d_file_id = ''f1'', f2d_document_id = ''d1''\<rparr>],
      files = [\<lparr>f_id = ''f1'', f_source_type = ''knowledgebase''\<rparr>],
      blobs = [(''kb1'', ''a.pdf'')],
      logged = []\<rparr>"

definition ex_kb_env :: "bool \<Rightarrow> kb_env" where
  "ex_kb_env ok = \<lparr>get_uuid = ''t9'', GRAPH_RAPTOR_FAKE_DOC_ID = ''x'', kb_update_ok = ok,
     PipelineTaskType_GRAPH_RAG = ''GraphRAG'', PipelineTaskType_RAPTOR = ''RAPTOR'',
     PipelineTaskType_MINDMAP = ''Mindmap''\<rparr>"


definition ex_graph :: graph_json where
  "ex_graph =
     \<lparr>nodes = Some [\<lparr>n_id = ''a'', n_pagerank = Some (1/2)\<rparr>, \<lparr>n_id = ''b'', n_pagerank = None\<rparr>,
                    \<lparr>n_id = ''c'', n_pagerank = Some (9/10)\<rparr>],
      edges = Some [\<lparr>e_source = ''a'', e_target = ''a'', e_weight = Some 5\<rparr>,
                    \<lparr>e_source = ''a'', e_target = ''z'', e_weight = Some 4\<rparr>,
                    \<lparr>e_source = ''a'', e_target = ''b'', e_weight = None\<rparr>,
                    \<lparr>e_source = ''c'', e_target = ''a'', e_weight = Some 2\<rparr>]\<rparr>"

definition ex_hit :: chunk where
  "ex_hit = \<lparr>c_doc_id = ''x'', c_available_int = 1, c_knowledge_graph_kwd = ''graph'',
     c_content_with_weight = ''payload''\<rparr>"

definition ex_kg_env :: kg_env where
  "ex_kg_env = \<lparr>kb_accessible = True, retrievaler_search = [ex_hit],
     json_loads = (\<lambda>txt. if txt = ''payload'' then Some ex_graph else None)\<rparr>"

definition ex_doc_env :: doc_env where
  "ex_doc_env =
     \<lparr>accessible = (\<lambda>i. True), accessible4deletion = (\<lambda>i. True),
      document_update = (\<lambda>i. Returned True), docStore_update = (\<lambda>i. Returned False),
      ParserType_TABLE = ''table'', FileSource_KNOWLEDGEBASE = ''knowledgebase'',
      get_storage_address = (\<lambda>s i. (''kb1'', ''a.pdf'')),
      queue_tasks = (\<lambda>doc tenant bucket name priority s.
         s\<lparr>tasks := tasks s @ [\<lparr>t_id = ''t7'', t_doc_id = d_id doc, t_progress = 0,
                                  t_task_type = ''parse'', t_doc_ids = [], t_priority = priority\<rparr>]\<rparr>),
      queue_dataflow = (\<lambda>tenant flow task_id i s.
         s\<lparr>tasks := tasks s @ [\<lparr>t_id = task_id, t_doc_id = i, t_progress = 0,
                                  t_task_type = ''dataflow'', t_doc_ids = [], t_priority = 0\<rparr>]\<rparr>),
      new_uuid = ''t8'',
      faults = (\<lambda>c i. None)\<rparr>"


definition ex_rerun :: RunDocumentRequest where
  "ex_rerun = \<lparr>r_doc_ids = [''d1''], r_run = RUNNING, r_delete = True\<rparr>"


definition ex_faulty_env :: doc_env where
  "ex_faulty_env = ex_doc_env\<lparr>faults := (\<lambda>c i. if c = StorageRm \<and> i = ''d1'' then Some ''storage down'' else None)\<rparr>"


section \<open>What the store operations leave alone\<close>

lemma find_map_same_key:
  assumes "\<And>x. key (f x) = key x"
  shows "find (\<lambda>x. key x = k) (map f xs) = map_option f (find (\<lambda>x. key x = k) xs)"
  using assms by (induction xs) auto

lemma get_by_id_update_by_id:
  assumes "\<And>d. d_id (f d) = d_id d"
  shows "DocumentService_get_by_id (DocumentService_update_by_id i f s) j =
           map_option (\<lambda>d. if d_id d = i then f d else d) (DocumentService_get_by_id s j)"
  unfolding DocumentService_get_by_id_def DocumentService_update_by_id_def
  using assms by (simp add: find_map_same_key [where key = d_id])

lemma update_by_id_frame [frame]:
  "knowledgebases (DocumentService_update_by_id i f s) = knowledgebases s"
  "tasks (DocumentService_update_by_id i f s) = tasks s"
  "index (DocumentService_update_by_id i f s) = index s"
  "KnowledgebaseService_get_by_id (DocumentService_update_by_id i f s) k = KnowledgebaseService_get_by_id s k"
  by (simp_all add: DocumentService_update_by_id_def KnowledgebaseService_get_by_id_def)

lemma set_available_frame [frame]:
  "knowledgebases (docStore_set_available i v tenant kbid s) = knowledgebases s"
  "documents (docStore_set_available i v tenant kbid s) = documents s"
  "tasks (docStore_set_available i v tenant kbid s) = tasks s"
  "KnowledgebaseService_get_by_id (docStore_set_available i v tenant kbid s) k = KnowledgebaseService_get_by_id s k"
  "DocumentService_get_by_id (docStore_set_available i v tenant kbid s) j = DocumentService_get_by_id s j"
  by (simp_all add: docStore_set_available_def KnowledgebaseService_get_by_id_def DocumentService_get_by_id_def)


lemma filter_delete_frame [frame]:
  "knowledgebases (TaskService_filter_delete cond s) = knowledgebases s"
  "documents (TaskService_filter_delete cond s) = documents s"
  "index (TaskService_filter_delete cond s) = index s"
  "tasks (TaskService_filter_delete cond s) = filter (\<lambda>t. \<not> cond t) (tasks s)"
  "KnowledgebaseService_get_by_id (TaskService_filter_delete cond s) k = KnowledgebaseService_get_by_id s k"
  "DocumentService_get_by_id (TaskService_filter_delete cond s) j = DocumentService_get_by_id s j"
  "indexExist (TaskService_filter_delete cond s) t k = indexExist s t k"
  by (simp_all add: TaskService_filter_delete_def KnowledgebaseService_get_by_id_def
        DocumentService_get_by_id_def indexExist_def)

lemma cancel_all_task_of_frame [frame]:
  "knowledgebases (cancel_all_task_of i s) = knowledgebases s"
  "documents (cancel_all_task_of i s) = documents s"
  "index (cancel_all_task_of i s) = index s"
  "tasks (cancel_all_task_of i s) = filter (\<lambda>t. t_doc_id t \<noteq> i) (tasks s)"
  by (simp_all add: cancel_all_task_of_def frame)

lemma docStore_delete_frame [frame]:
  "knowledgebases (docStore_delete cond t k s) = knowledgebases s"
  "documents (docStore_delete cond t k s) = documents s"
  "tasks (docStore_delete cond t k s) = tasks s"
  "KnowledgebaseService_get_by_id (docStore_delete cond t k s) kb = KnowledgebaseService_get_by_id s kb"
  "DocumentService_get_by_id (docStore_delete cond t k s) j = DocumentService_get_by_id s j"
  by (simp_all add: docStore_delete_def KnowledgebaseService_get_by_id_def DocumentService_get_by_id_def)

lemma kb_update_frame [frame]:
  "documents (KnowledgebaseService_update_by_id i f s) = documents s"
  "tasks (KnowledgebaseService_update_by_id i f s) = tasks s"
  "index (KnowledgebaseService_update_by_id i f s) = index s"
  "DocumentService_get_by_id (KnowledgebaseService_update_by_id i f s) j = DocumentService_get_by_id s j"
  "indexExist (KnowledgebaseService_update_by_id i f s) t k = indexExist s t k"
  by (simp_all add: KnowledgebaseService_update_by_id_def DocumentService_get_by_id_def indexExist_def)

lemma update_by_id_frame2 [frame]:
  "indexExist (DocumentService_update_by_id i f s) t k = indexExist s t k"
  by (simp add: DocumentService_update_by_id_def indexExist_def)

lemma kb_get_by_id_update_by_id:
  assumes "\<And>r. k_id (f r) = k_id r"
  shows "KnowledgebaseService_get_by_id (KnowledgebaseService_update_by_id i f s) k =
           map_option (\<lambda>r. if k_id r = i then f r else r) (KnowledgebaseService_get_by_id s k)"
proof -
  have "find (\<lambda>r. k_id r = k) (map (\<lambda>r. if k_id r = i then f r else r) xs) =
          map_option (\<lambda>r. if k_id r = i then f r else r) (find (\<lambda>r. k_id r = k) xs)" for xs
    by (rule find_map_same_key) (simp add: assms)
  then show ?thesis
    by (simp add: KnowledgebaseService_get_by_id_def KnowledgebaseService_update_by_id_def)
qed

lemma map_of_docStore_delete:
  "map_of (index (docStore_delete cond t k s)) p =
     (if p = (t, k) then map_option (filter (\<lambda>c. \<not> cond c)) (map_of (index s) p)
      else map_of (index s) p)"
proof -
  have "map_of (map (\<lambda>(q, cs). if q = (t, k) then (q, filter (\<lambda>c. \<not> cond c) cs) else (q, cs)) xs) p =
     (if p = (t, k) then map_option (filter (\<lambda>c. \<not> cond c)) (map_of xs p) else map_of xs p)" for xs
  proof (induction xs)
    case Nil
    show ?case by simp
  next
    case (Cons x xs)
    obtain q cs where x: "x = (q, cs)" by (cases x)
    show ?case
    proof (cases "q = p")
      case True
      then show ?thesis by (simp add: x)
    next
      case False
      then show ?thesis using Cons.IH by (cases "p = (t, k)") (simp_all add: x)
    qed
  qed
  then show ?thesis by (simp add: docStore_delete_def)
qed

lemma get_by_id_d_id: "DocumentService_get_by_id s i = Some doc \<Longrightarrow> d_id doc = i"
  by (auto simp: DocumentService_get_by_id_def dest: find_Some_iff [THEN iffD1])

lemma kb_get_by_id_k_id: "KnowledgebaseService_get_by_id s i = Some kb \<Longrightarrow> k_id kb = i"
  by (auto simp: KnowledgebaseService_get_by_id_def dest: find_Some_iff [THEN iffD1])

lemma delete_field_map_frame [frame]:
  "documents (KnowledgebaseService_delete_field_map k s) = documents s"
  "tasks (KnowledgebaseService_delete_field_map k s) = tasks s"
  "index (KnowledgebaseService_delete_field_map k s) = index s"
  "DocumentService_get_by_id (KnowledgebaseService_delete_field_map k s) j = DocumentService_get_by_id s j"
  by (simp_all add: KnowledgebaseService_delete_field_map_def frame)

lemma kb_get_by_id_delete_field_map:
  "KnowledgebaseService_get_by_id (KnowledgebaseService_delete_field_map k s) j =
     map_option (\<lambda>r. if k_id r = k then r\<lparr>k_field_map := False\<rparr> else r) (KnowledgebaseService_get_by_id s j)"
  unfolding KnowledgebaseService_delete_field_map_def
  by (rule kb_get_by_id_update_by_id) simp


section \<open>Facts about the example data\<close>

lemma ex_store_sel:
  "documents (ex_store docs p) = docs"
  "tasks (ex_store docs p) = [ex_task p, \<lparr>t_id = ''t2'', t_doc_id = ''d1'', t_progress = 0, t_task_type = ''parse'',
                            t_doc_ids = [], t_priority = 0\<rparr>]"
  "knowledgebases (ex_store docs p) = [ex_kb]"
  "index (ex_store docs p) = [((''tenant1'', ''kb1''), [ex_chunk ''d1'', ex_chunk ''d2''])]"
  "logged (ex_store docs p) = []"
  by (simp_all add: ex_store_def)

lemma ex_kb_sel:
  "k_id ex_kb = ''kb1''" "k_tenant_id ex_kb = ''tenant1''" "graphrag_task_id ex_kb = Some ''t1''"
  "raptor_task_id ex_kb = None" "mindmap_task_id ex_kb = Some []"
  by (simp_all add: ex_kb_def)

lemma ex_task_sel: "t_id (ex_task p) = ''t1''" "t_progress (ex_task p) = p"
  by (simp_all add: ex_task_def)

lemma ex_lookup:
  "KnowledgebaseService_get_by_id (ex_store docs p) ''kb1'' = Some ex_kb"
  "KnowledgebaseService_get_by_id (ex_store docs p) ''kb7'' = None"
  "TaskService_get_by_id (ex_store docs p) ''t1'' = Some (ex_task p)"
  by (simp_all add: KnowledgebaseService_get_by_id_def TaskService_get_by_id_def ex_store_sel ex_kb_sel ex_task_sel)

lemma ex_doc_lookup:
  "DocumentService_get_by_id (ex_store [ex_doc ''d1'' r] p) ''d1'' = Some (ex_doc ''d1'' r)"
  "d_kb_id (ex_doc i r) = ''kb1''" "d_id (ex_doc i r) = i" "d_run (ex_doc i r) = r"
  by (simp_all add: DocumentService_get_by_id_def ex_store_sel ex_doc_def)

lemma ex_tenant:
  "DocumentService_get_tenant_id (ex_store [ex_doc ''d1'' r] p) ''d1'' = Some ''tenant1''"
  by (simp add: DocumentService_get_tenant_id_def ex_doc_lookup ex_lookup ex_kb_sel)

lemma ex_env_sel:
  "accessible ex_doc_env i" "ParserType_TABLE ex_doc_env = ''table''" "new_uuid ex_doc_env = ''t8''"
  "get_storage_address ex_doc_env s i = (''kb1'', ''a.pdf'')"
  "queue_tasks ex_doc_env doc tenant bucket name priority s =
     s\<lparr>tasks := tasks s @ [\<lparr>t_id = ''t7'', t_doc_id = d_id doc, t_progress = 0,
                                  t_task_type = ''parse'', t_doc_ids = [], t_priority = priority\<rparr>]\<rparr>"
  by (simp_all add: ex_doc_env_def)

lemma ex_doc_sel:
  "d_parser_id (ex_doc i r) = ''naive''" "d_pipeline_id (ex_doc i r) = []"
  "d_process_duration (ex_doc i r) = 5" "d_chunk_num (ex_doc i r) = 4" "d_token_num (ex_doc i r) = 40"
  by (simp_all add: ex_doc_def)


lemma ex_env_del:
  "accessible4deletion ex_doc_env i" "faults ex_doc_env c i = None"
  "accessible4deletion ex_faulty_env i"
  "faults ex_faulty_env c i = (if c = StorageRm \<and> i = ''d1'' then Some ''storage down'' else None)"
  "FileSource_KNOWLEDGEBASE ex_faulty_env = ''knowledgebase''"
  "ParserType_TABLE ex_faulty_env = ''table''"
  by (simp_all add: ex_doc_env_def ex_faulty_env_def)



section \<open>Properties of the knowledge-base handlers\<close>

subsection \<open>Single-flight dispatch\<close>

text \<open>
  Claim C1, as the code has it. For a knowledge base that exists and every aggregate kind,
  a dispatch is rejected with the task-in-progress error if and only if the pointer of
  that kind is set (not empty), the Task it names exists, and that Task's progress is
  neither \<open>-1\<close> nor \<open>1\<close>; the error names that task id and the store is left as it was.
  Once the Task's progress is \<open>1\<close> or \<open>-1\<close>, a dispatch succeeds and returns the id of
  the Task it has created for all documents of the knowledge base, provided the knowledge
  base has at least one document; with no document it is rejected with the no-documents
  error.
\<close>

theorem run_aggregate_single_flight:
  assumes "kb_id \<noteq> []" and "KnowledgebaseService_get_by_id s kb_id = Some kb"
  shows "((\<exists>tid p l. fst (run_aggregate k env kb_id s) = Inl (TaskInProgress tid p l))
            \<longleftrightarrow> (\<exists>tid t. pointer k kb = Some tid \<and> tid \<noteq> [] \<and> TaskService_get_by_id s tid = Some t
                         \<and> t_progress t \<noteq> -1 \<and> t_progress t \<noteq> 1))
       \<and> (\<forall>tid t. pointer k kb = Some tid \<and> tid \<noteq> [] \<and> TaskService_get_by_id s tid = Some t
                  \<and> t_progress t \<noteq> -1 \<and> t_progress t \<noteq> 1
              \<longrightarrow> run_aggregate k env kb_id s = (Inl (TaskInProgress tid (t_progress t) (running_label k)), s))
       \<and> (\<forall>tid t. pointer k kb = Some tid \<and> TaskService_get_by_id s tid = Some t
                  \<and> (t_progress t = 1 \<or> t_progress t = -1)
              \<longrightarrow> (if DocumentService_get_by_kb_id s kb_id = []
                   then fst (run_aggregate k env kb_id s) = Inl (DataError (''No documents in Knowledgebase '' @ kb_id))
                   else fst (run_aggregate k env kb_id s) = Inr (get_uuid env)
                        \<and> \<lparr>t_id = get_uuid env, t_doc_id = GRAPH_RAPTOR_FAKE_DOC_ID env, t_progress = 0,
                            t_task_type = ty k,
                            t_doc_ids = map d_id (DocumentService_get_by_kb_id s kb_id),
                            t_priority = 0\<rparr> \<in> set (tasks (snd (run_aggregate k env kb_id s)))))"
  using assms
  by (auto simp: run_aggregate_def Let_def queue_raptor_o_graphrag_tasks_def logging_warning_def
        KnowledgebaseService_update_by_id_def DocumentService_get_by_kb_id_def
      split: option.splits list.splits if_splits)

text \<open>
  C1 on the example store: at progress \<open>1/2\<close> the dispatch is rejected and names \<open>t1\<close>; at
  progress \<open>1\<close> and at \<open>-1\<close> it returns the new Task id.
\<close>

theorem run_aggregate_single_flight_witness:
  "run_graphrag (ex_kb_env True) ''kb1'' (ex_store [ex_doc ''d1'' DONE] (1/2))
     = (Inl (TaskInProgress ''t1'' (1/2) ''Graph''), ex_store [ex_doc ''d1'' DONE] (1/2))
   \<and> fst (run_graphrag (ex_kb_env True) ''kb1'' (ex_store [ex_doc ''d1'' DONE] 1)) = Inr ''t9''
   \<and> fst (run_graphrag (ex_kb_env True) ''kb1'' (ex_store [ex_doc ''d1'' DONE] (-1))) = Inr ''t9''"
  using run_aggregate_single_flight [of "''kb1''" "ex_store [ex_doc ''d1'' DONE] (1/2)" ex_kb Graphrag "ex_kb_env True"]
        run_aggregate_single_flight [of "''kb1''" "ex_store [ex_doc ''d1'' DONE] 1" ex_kb Graphrag "ex_kb_env True"]
        run_aggregate_single_flight [of "''kb1''" "ex_store [ex_doc ''d1'' DONE] (-1)" ex_kb Graphrag "ex_kb_env True"]
  by (simp add: run_graphrag_def ex_lookup ex_kb_sel ex_task_sel ex_store_sel
        DocumentService_get_by_kb_id_def ex_doc_def ex_kb_env_def)

text \<open>
  Claim C1 as stated does not hold: the pointer of the example knowledge base names a
  Task whose progress is \<open>1\<close>, the knowledge base has no document, and the dispatch does
  not succeed.
\<close>

theorem run_aggregate_no_documents_counterexample:
  "pointer Graphrag ex_kb = Some ''t1''
   \<and> TaskService_get_by_id (ex_store [] 1) ''t1'' = Some (ex_task 1)
   \<and> t_progress (ex_task 1) = 1
   \<and> KnowledgebaseService_get_by_id (ex_store [] 1) ''kb1'' = Some ex_kb
   \<and> run_graphrag (ex_kb_env True) ''kb1'' (ex_store [] 1)
       = (Inl (DataError ''No documents in Knowledgebase kb1''), ex_store [] 1)"
  by (simp add: run_graphrag_def run_aggregate_def Let_def ex_lookup ex_kb_sel ex_task_sel ex_store_sel
        DocumentService_get_by_kb_id_def)

subsection \<open>The pointer write after a dispatch\<close>

text \<open>
  Claim C7. For every successful aggregate dispatch whose write of the new Task id into
  the pointer field does not go through: the caller still gets the new Task id, the
  created Task stays in the ledger (the ledger is the old one with the new Task at its
  end), the knowledge-base rows are unchanged, and the failure is the last warning
  logged.
\<close>

theorem pointer_write_failure_keeps_task:
  assumes "fst (run_aggregate k env kb_id s) = Inr tid" and "\<not> kb_update_ok env"
  shows "tid = get_uuid env
       \<and> tasks (snd (run_aggregate k env kb_id s)) =
           tasks s @ [\<lparr>t_id = tid, t_doc_id = GRAPH_RAPTOR_FAKE_DOC_ID env, t_progress = 0,
                       t_task_type = ty k,
                       t_doc_ids = map d_id (DocumentService_get_by_kb_id s kb_id),
                       t_priority = 0\<rparr>]
       \<and> knowledgebases (snd (run_aggregate k env kb_id s)) = knowledgebases s
       \<and> last (logged (snd (run_aggregate k env kb_id s))) = ''Cannot save '' @ ty k @ ''_task_id for kb '' @ kb_id"
  using assms
  by (auto simp: run_aggregate_def Let_def queue_raptor_o_graphrag_tasks_def logging_warning_def
        KnowledgebaseService_update_by_id_def DocumentService_get_by_kb_id_def
      split: option.splits list.splits if_splits)

text \<open>C7 on the example store, for a RAPTOR dispatch whose pointer write fails.\<close>

theorem pointer_write_failure_keeps_task_witness:
  "fst (run_aggregate Raptor (ex_kb_env False) ''kb1'' (ex_store [ex_doc ''d1'' DONE] 1)) = Inr ''t9''
   \<and> \<not> kb_update_ok (ex_kb_env False)
   \<and> tasks (snd (run_aggregate Raptor (ex_kb_env False) ''kb1'' (ex_store [ex_doc ''d1'' DONE] 1))) =
       tasks (ex_store [ex_doc ''d1'' DONE] 1) @
         [\<lparr>t_id = ''t9'', t_doc_id = ''x'', t_progress = 0, t_task_type = ''raptor'',
           t_doc_ids = [''d1''], t_priority = 0\<rparr>]
   \<and> knowledgebases (snd (run_aggregate Raptor (ex_kb_env False) ''kb1'' (ex_store [ex_doc ''d1'' DONE] 1)))
       = [ex_kb]"
proof -
  have ok: "fst (run_aggregate Raptor (ex_kb_env False) ''kb1'' (ex_store [ex_doc ''d1'' DONE] 1)) = Inr ''t9''"
    by (simp add: run_aggregate_def Let_def ex_lookup ex_kb_sel ex_store_sel
        DocumentService_get_by_kb_id_def ex_doc_def ex_kb_env_def
        queue_raptor_o_graphrag_tasks_def logging_warning_def)
  have no: "\<not> kb_update_ok (ex_kb_env False)" by (simp add: ex_kb_env_def)
  have env: "GRAPH_RAPTOR_FAKE_DOC_ID (ex_kb_env False) = ''x''" by (simp add: ex_kb_env_def)
  have docs: "map d_id (DocumentService_get_by_kb_id (ex_store [ex_doc ''d1'' DONE] 1) ''kb1'') = [''d1'']"
    by (simp add: DocumentService_get_by_kb_id_def ex_store_sel ex_doc_def)
  note th = pointer_write_failure_keeps_task [OF ok no, unfolded env docs ex_store_sel(3) ty.simps]
  from th have a: "tasks (snd (run_aggregate Raptor (ex_kb_env False) ''kb1'' (ex_store [ex_doc ''d1'' DONE] 1))) =
       tasks (ex_store [ex_doc ''d1'' DONE] 1) @
         [\<lparr>t_id = ''t9'', t_doc_id = ''x'', t_progress = 0, t_task_type = ''raptor'',
           t_doc_ids = [''d1''], t_priority = 0\<rparr>]" by blast
  from th have b: "knowledgebases (snd (run_aggregate Raptor (ex_kb_env False) ''kb1'' (ex_store [ex_doc ''d1'' DONE] 1)))
       = [ex_kb]" by blast
  show ?thesis using ok no a b by blast
qed

subsection \<open>The date filter of the pipeline log listings\<close>

text \<open>
  Claim C9. For both log listings: when \<^verbatim>\<open>create_date_from\<close> and \<^verbatim>\<open>create_date_to\<close> are both
  supplied and \<^verbatim>\<open>create_date_to\<close> is greater than \<^verbatim>\<open>create_date_from\<close> as a string, the
  request is rejected, and with the error "Create data filter is abnormal." whenever a
  knowledge-base id is given (without one, the missing id is reported first). When
  \<^verbatim>\<open>create_date_to\<close> is not greater than \<^verbatim>\<open>create_date_from\<close>, the request passes this check:
  the answer is not that error.
\<close>

theorem list_pipeline_logs_rejects_later_end:
  "(q_create_date_from q \<noteq> [] \<and> q_create_date_to q \<noteq> [] \<and> q_create_date_to q > q_create_date_from q \<longrightarrow>
      isl (list_pipeline_logs env request q) \<and> isl (list_pipeline_dataset_logs env ros q)
      \<and> (q_kb_id q \<noteq> [] \<longrightarrow>
            list_pipeline_logs env request q = Inl (DataError ''Create data filter is abnormal.'')
          \<and> list_pipeline_dataset_logs env ros q = Inl (DataError ''Create data filter is abnormal.'')))
   \<and> (\<not> q_create_date_to q > q_create_date_from q \<longrightarrow>
         list_pipeline_logs env request q \<noteq> Inl (DataError ''Create data filter is abnormal.'')
       \<and> list_pipeline_dataset_logs env ros q \<noteq> Inl (DataError ''Create data filter is abnormal.''))"
  by (auto simp: list_pipeline_logs_def list_pipeline_dataset_logs_def split: sum.splits)

text \<open>
  C9 on a range that ends later than it starts (rejected) and on the same range reversed
  (not rejected by this check).
\<close>

theorem list_pipeline_logs_rejects_later_end_witness:
  "list_pipeline_logs ex_logs_env ex_logs_request (ex_logs_query ''2024-01-01'' ''2024-01-31'')
     = Inl (DataError ''Create data filter is abnormal.'')
   \<and> list_pipeline_dataset_logs ex_logs_env (Some []) (ex_logs_query ''2024-01-01'' ''2024-01-31'')
     = Inl (DataError ''Create data filter is abnormal.'')
   \<and> list_pipeline_logs ex_logs_env ex_logs_request (ex_logs_query ''2024-01-31'' ''2024-01-01'')
     \<noteq> Inl (DataError ''Create data filter is abnormal.'')
   \<and> list_pipeline_dataset_logs ex_logs_env (Some []) (ex_logs_query ''2024-01-31'' ''2024-01-01'')
     \<noteq> Inl (DataError ''Create data filter is abnormal.'')"
  using list_pipeline_logs_rejects_later_end
          [of "ex_logs_query ''2024-01-01'' ''2024-01-31''" ex_logs_env ex_logs_request "Some []"]
        list_pipeline_logs_rejects_later_end
          [of "ex_logs_query ''2024-01-31'' ''2024-01-01''" ex_logs_env ex_logs_request "Some []"]
  by (simp add: ex_logs_query_def)

subsection \<open>Unbinding on a knowledge base that does not exist\<close>

text \<open>
  Claim C10. For every unbind request with a knowledge-base id that resolves to no
  knowledge base, the answer is success with data \<open>True\<close> whatever the pipeline task type
  is (it is not validated), and the store is unchanged: no pointer is cleared and no index
  entry is deleted.
\<close>

theorem delete_kb_task_unknown_kb:
  "kb_id \<noteq> [] \<Longrightarrow> KnowledgebaseService_get_by_id s kb_id = None \<Longrightarrow>
   delete_kb_task env kb_id pipeline_task_type s = (Inr True, s)"
  by (simp add: delete_kb_task_def)

text \<open>C10 on the example store, with an id of no knowledge base and a task type of no kind.\<close>

theorem delete_kb_task_unknown_kb_witness:
  "KnowledgebaseService_get_by_id (ex_store [] 1) ''kb7'' = None
   \<and> delete_kb_task (ex_kb_env True) ''kb7'' ''no such type'' (ex_store [] 1) = (Inr True, ex_store [] 1)"
  using delete_kb_task_unknown_kb [of "''kb7''" "ex_store [] 1" "ex_kb_env True" "''no such type''"]
  by (simp add: ex_lookup)

section \<open>Properties of the knowledge graph view\<close>

subsection \<open>The descending stable sort\<close>

lemma sorted_reverse_descending:
  "sorted_wrt (\<lambda>x y. key y \<le> key x) (sorted_reverse key xs)"
proof -
  have "sorted (map (\<lambda>x. - key x) (sorted_reverse key xs))"
    unfolding sorted_reverse_def by (rule sorted_sort_key)
  then show ?thesis by (simp add: sorted_map)
qed

lemma mset_sorted_reverse: "mset (sorted_reverse key xs) = mset xs"
  by (simp add: sorted_reverse_def)

lemma length_sorted_reverse: "length (sorted_reverse key xs) = length xs"
  by (simp add: sorted_reverse_def)

lemma take_sorted_reverse_top:
  assumes "x \<in> set (take n (sorted_reverse key xs))"
    and "y \<in># mset xs - mset (take n (sorted_reverse key xs))"
  shows "key y \<le> key x"
proof -
  let ?ys = "sorted_reverse key xs"
  have "mset xs = mset (take n ?ys) + mset (drop n ?ys)"
    by (metis append_take_drop_id mset_append mset_sorted_reverse)
  then have "y \<in> set (drop n ?ys)" using assms(2) by simp
  moreover have "sorted_wrt (\<lambda>x y. key y \<le> key x) (take n ?ys @ drop n ?ys)"
    by (simp add: sorted_reverse_descending)
  ultimately show ?thesis using assms(1) unfolding sorted_wrt_append by blast
qed

lemma mset_take_sorted_reverse: "mset (take n (sorted_reverse key xs)) \<subseteq># mset xs"
proof -
  have "mset (take n (sorted_reverse key xs)) \<subseteq># mset (sorted_reverse key xs)"
    by (metis append_take_drop_id mset_append mset_subset_eq_add_left)
  then show ?thesis by (simp add: mset_sorted_reverse)
qed

lemma mset_take_sorted_reverse_filter:
  "mset (take n (sorted_reverse key (filter P xs))) \<subseteq># mset xs"
  by (rule subset_mset.order_trans [OF mset_take_sorted_reverse]) simp


subsection \<open>The ranked, bounded view\<close>

text \<open>
  Claim C2. For every graph-view request whose highest-ranked hit is a \<open>graph\<close> hit that
  parses to an object with a node list: the returned graph holds the nodes of highest
  pagerank (a missing pagerank counts as 0), 256 of them or all when there are fewer, in
  descending order of pagerank: the returned list is a sub-multiset of the given nodes, of
  length \<open>min 256 n\<close>, sorted descending, and every node left out has a pagerank no greater
  than any node kept. If an edge list is present, the returned edges are edges of the
  given list, none is a self-loop, both endpoints of each are ids of returned nodes, they
  are in descending order of weight (a missing weight counts as 0), and there are at most
  128; if no edge list is present, none is returned.
\<close>

theorem knowledge_graph_ranked_view:
  assumes "kb_accessible env"
    and "KnowledgebaseService_get_by_id s kb_id = Some kb"
    and "indexExist s (k_tenant_id kb) kb_id"
    and "retrievaler_search env = hit # rest"
    and "c_knowledge_graph_kwd hit = ''graph''"
    and "json_loads env (c_content_with_weight hit) = Some g"
    and "nodes g = Some ns"
  shows "\<exists>obj g1 ns1.
           knowledge_graph env kb_id s = Inr obj \<and> obj ''graph'' = Some g1 \<and> nodes g1 = Some ns1
         \<and> ns1 = take 256 (sorted_reverse get_pagerank ns)
         \<and> length ns1 = min 256 (length ns)
         \<and> mset ns1 \<subseteq># mset ns
         \<and> sorted_wrt (\<lambda>x y. get_pagerank y \<le> get_pagerank x) ns1
         \<and> (\<forall>x \<in> set ns1. \<forall>y \<in># mset ns - mset ns1. get_pagerank y \<le> get_pagerank x)
         \<and> (edges g = None \<longrightarrow> edges g1 = None)
         \<and> (\<forall>es. edges g = Some es \<longrightarrow>
               (\<exists>es1. edges g1 = Some es1
                    \<and> (\<forall>e \<in> set es1. e_source e \<noteq> e_target e
                            \<and> e_source e \<in> n_id ` set ns1 \<and> e_target e \<in> n_id ` set ns1)
                    \<and> sorted_wrt (\<lambda>x y. get_weight y \<le> get_weight x) es1
                    \<and> length es1 \<le> 128
                    \<and> mset es1 \<subseteq># mset es))"
proof -
  let ?ns1 = "take 256 (sorted_reverse get_pagerank ns)"
  have top: "\<forall>x \<in> set ?ns1. \<forall>y \<in># mset ns - mset ?ns1. get_pagerank y \<le> get_pagerank x"
  proof (intro ballI)
    fix x y
    assume "x \<in> set ?ns1" and "y \<in># mset ns - mset ?ns1"
    then show "get_pagerank y \<le> get_pagerank x" by (rule take_sorted_reverse_top)
  qed
  have len: "length ?ns1 = min 256 (length ns)"
    by (simp add: length_sorted_reverse)
  have desc: "sorted_wrt (\<lambda>x y. get_pagerank y \<le> get_pagerank x) ?ns1"
    by (rule sorted_wrt_take) (rule sorted_reverse_descending)
  have sub: "mset ?ns1 \<subseteq># mset ns" by (rule mset_take_sorted_reverse)
  show ?thesis
  proof (cases "edges g")
    case None
    let ?g1 = "g\<lparr>nodes := Some ?ns1\<rparr>"
    let ?obj = "[''graph'' \<mapsto> empty_json, ''mind_map'' \<mapsto> empty_json](''graph'' \<mapsto> ?g1)"
    have kg: "knowledge_graph env kb_id s = Inr ?obj"
      using assms None by (simp add: knowledge_graph_def Let_def)
    have a: "?obj ''graph'' = Some ?g1" by simp
    have b: "nodes ?g1 = Some ?ns1" by simp
    have c: "edges g = None \<longrightarrow> edges ?g1 = None" using None by simp
    have d: "\<forall>es. edges g = Some es \<longrightarrow>
               (\<exists>es1. edges ?g1 = Some es1
                    \<and> (\<forall>e \<in> set es1. e_source e \<noteq> e_target e
                            \<and> e_source e \<in> n_id ` set ?ns1 \<and> e_target e \<in> n_id ` set ?ns1)
                    \<and> sorted_wrt (\<lambda>x y. get_weight y \<le> get_weight x) es1
                    \<and> length es1 \<le> 128
                    \<and> mset es1 \<subseteq># mset es)"
      using None by simp
    have "knowledge_graph env kb_id s = Inr ?obj \<and> ?obj ''graph'' = Some ?g1 \<and> nodes ?g1 = Some ?ns1
         \<and> ?ns1 = take 256 (sorted_reverse get_pagerank ns)
         \<and> length ?ns1 = min 256 (length ns)
         \<and> mset ?ns1 \<subseteq># mset ns
         \<and> sorted_wrt (\<lambda>x y. get_pagerank y \<le> get_pagerank x) ?ns1
         \<and> (\<forall>x \<in> set ?ns1. \<forall>y \<in># mset ns - mset ?ns1. get_pagerank y \<le> get_pagerank x)
         \<and> (edges g = None \<longrightarrow> edges ?g1 = None)
         \<and> (\<forall>es. edges g = Some es \<longrightarrow>
               (\<exists>es1. edges ?g1 = Some es1
                    \<and> (\<forall>e \<in> set es1. e_source e \<noteq> e_target e
                            \<and> e_source e \<in> n_id ` set ?ns1 \<and> e_target e \<in> n_id ` set ?ns1)
                    \<and> sorted_wrt (\<lambda>x y. get_weight y \<le> get_weight x) es1
                    \<and> length es1 \<le> 128
                    \<and> mset es1 \<subseteq># mset es))"
      using kg a b len sub desc top c d by (intro conjI) (assumption | rule refl)+
    then show ?thesis by (intro exI)
  next
    case (Some es)
    let ?es1 = "take 128 (sorted_reverse get_weight
                  (filter (\<lambda>e. e_source e \<noteq> e_target e \<and> e_source e \<in> set (map n_id ?ns1)
                               \<and> e_target e \<in> set (map n_id ?ns1)) es))"
    let ?g1 = "g\<lparr>nodes := Some ?ns1, edges := Some ?es1\<rparr>"
    let ?obj = "[''graph'' \<mapsto> empty_json, ''mind_map'' \<mapsto> empty_json](''graph'' \<mapsto> ?g1)"
    have kg: "knowledge_graph env kb_id s = Inr ?obj"
      using assms Some by (simp add: knowledge_graph_def Let_def)
    have a: "?obj ''graph'' = Some ?g1" by simp
    have b: "nodes ?g1 = Some ?ns1" by simp
    have c: "edges g = None \<longrightarrow> edges ?g1 = None" using Some by simp
    have e0: "edges ?g1 = Some ?es1" by simp
    have e1: "\<forall>e \<in> set ?es1. e_source e \<noteq> e_target e
                \<and> e_source e \<in> n_id ` set ?ns1 \<and> e_target e \<in> n_id ` set ?ns1"
    proof
      fix e assume "e \<in> set ?es1"
      then have "e \<in> set (sorted_reverse get_weight
                  (filter (\<lambda>e. e_source e \<noteq> e_target e \<and> e_source e \<in> set (map n_id ?ns1)
                               \<and> e_target e \<in> set (map n_id ?ns1)) es))"
        by (rule in_set_takeD)
      then show "e_source e \<noteq> e_target e \<and> e_source e \<in> n_id ` set ?ns1 \<and> e_target e \<in> n_id ` set ?ns1"
        by (simp add: sorted_reverse_def)
    qed
    have e2: "sorted_wrt (\<lambda>x y. get_weight y \<le> get_weight x) ?es1"
      by (rule sorted_wrt_take) (rule sorted_reverse_descending)
    have e3: "length ?es1 \<le> 128" by simp
    have e4: "mset ?es1 \<subseteq># mset es" by (rule mset_take_sorted_reverse_filter)
    have d: "\<forall>es'. edges g = Some es' \<longrightarrow>
               (\<exists>es1. edges ?g1 = Some es1
                    \<and> (\<forall>e \<in> set es1. e_source e \<noteq> e_target e
                            \<and> e_source e \<in> n_id ` set ?ns1 \<and> e_target e \<in> n_id ` set ?ns1)
                    \<and> sorted_wrt (\<lambda>x y. get_weight y \<le> get_weight x) es1
                    \<and> length es1 \<le> 128
                    \<and> mset es1 \<subseteq># mset es')"
    proof (intro allI impI)
      fix es' assume "edges g = Some es'"
      then have "es' = es" using Some by simp
      then show "\<exists>es1. edges ?g1 = Some es1
                    \<and> (\<forall>e \<in> set es1. e_source e \<noteq> e_target e
                            \<and> e_source e \<in> n_id ` set ?ns1 \<and> e_target e \<in> n_id ` set ?ns1)
                    \<and> sorted_wrt (\<lambda>x y. get_weight y \<le> get_weight x) es1
                    \<and> length es1 \<le> 128
                    \<and> mset es1 \<subseteq># mset es'"
        using e0 e1 e2 e3 e4 by blast
    qed
    have "knowledge_graph env kb_id s = Inr ?obj \<and> ?obj ''graph'' = Some ?g1 \<and> nodes ?g1 = Some ?ns1
         \<and> ?ns1 = take 256 (sorted_reverse get_pagerank ns)
         \<and> length ?ns1 = min 256 (length ns)
         \<and> mset ?ns1 \<subseteq># mset ns
         \<and> sorted_wrt (\<lambda>x y. get_pagerank y \<le> get_pagerank x) ?ns1
         \<and> (\<forall>x \<in> set ?ns1. \<forall>y \<in># mset ns - mset ?ns1. get_pagerank y \<le> get_pagerank x)
         \<and> (edges g = None \<longrightarrow> edges ?g1 = None)
         \<and> (\<forall>es. edges g = Some es \<longrightarrow>
               (\<exists>es1. edges ?g1 = Some es1
                    \<and> (\<forall>e \<in> set es1. e_source e \<noteq> e_target e
                            \<and> e_source e \<in> n_id ` set ?ns1 \<and> e_target e \<in> n_id ` set ?ns1)
                    \<and> sorted_wrt (\<lambda>x y. get_weight y \<le> get_weight x) es1
                    \<and> length es1 \<le> 128
                    \<and> mset es1 \<subseteq># mset es))"
      using kg a b len sub desc top c d by (intro conjI) (assumption | rule refl)+
    then show ?thesis by (intro exI)
  qed
qed

text \<open>
  C2 on a graph of three nodes (one without pagerank) and four edges (a self-loop, an edge
  to a node that is not there, an edge without weight, an edge of weight 2).
\<close>

theorem knowledge_graph_ranked_view_witness:
  "kb_accessible ex_kg_env
   \<and> indexExist (ex_store [] 1) ''tenant1'' ''kb1''
   \<and> nodes ex_graph \<noteq> None
   \<and> (\<exists>obj g1. knowledge_graph ex_kg_env ''kb1'' (ex_store [] 1) = Inr obj \<and> obj ''graph'' = Some g1
         \<and> nodes g1 = Some [\<lparr>n_id = ''c'', n_pagerank = Some (9/10)\<rparr>, \<lparr>n_id = ''a'', n_pagerank = Some (1/2)\<rparr>,
                            \<lparr>n_id = ''b'', n_pagerank = None\<rparr>]
         \<and> edges g1 = Some [\<lparr>e_source = ''c'', e_target = ''a'', e_weight = Some 2\<rparr>,
                            \<lparr>e_source = ''a'', e_target = ''b'', e_weight = None\<rparr>])"
proof -
  let ?ns = "[\<lparr>n_id = ''a'', n_pagerank = Some (1/2)\<rparr>, \<lparr>n_id = ''b'', n_pagerank = None\<rparr>,
              \<lparr>n_id = ''c'', n_pagerank = Some (9/10)\<rparr>]"
  let ?es = "[\<lparr>e_source = ''a'', e_target = ''a'', e_weight = Some 5\<rparr>,
              \<lparr>e_source = ''a'', e_target = ''z'', e_weight = Some 4\<rparr>,
              \<lparr>e_source = ''a'', e_target = ''b'', e_weight = None\<rparr>,
              \<lparr>e_source = ''c'', e_target = ''a'', e_weight = Some 2\<rparr>]"
  have h1: "kb_accessible ex_kg_env" by (simp add: ex_kg_env_def)
  have h2: "KnowledgebaseService_get_by_id (ex_store [] 1) ''kb1'' = Some ex_kb" by (rule ex_lookup)
  have h3: "indexExist (ex_store [] 1) (k_tenant_id ex_kb) ''kb1''"
    by (simp add: indexExist_def ex_store_sel ex_kb_sel)
  have h4: "retrievaler_search ex_kg_env = ex_hit # []" by (simp add: ex_kg_env_def)
  have h5: "c_knowledge_graph_kwd ex_hit = ''graph''" by (simp add: ex_hit_def)
  have h6: "json_loads ex_kg_env (c_content_with_weight ex_hit) = Some ex_graph"
    by (simp add: ex_kg_env_def ex_hit_def)
  have h7: "nodes ex_graph = Some ?ns" by (simp add: ex_graph_def)
  have h8: "edges ex_graph = Some ?es" by (simp add: ex_graph_def)
  have srt: "take 256 (sorted_reverse get_pagerank ?ns) =
      [\<lparr>n_id = ''c'', n_pagerank = Some (9/10)\<rparr>, \<lparr>n_id = ''a'', n_pagerank = Some (1/2)\<rparr>,
       \<lparr>n_id = ''b'', n_pagerank = None\<rparr>]"
    by (simp add: sorted_reverse_def get_pagerank_def)
  from knowledge_graph_ranked_view [OF h1 h2 h3 h4 h5 h6 h7]
  obtain obj g1 ns1 where kg: "knowledge_graph ex_kg_env ''kb1'' (ex_store [] 1) = Inr obj"
    and g1: "obj ''graph'' = Some g1" and n1: "nodes g1 = Some ns1"
    and ns1: "ns1 = take 256 (sorted_reverse get_pagerank ?ns)"
    by blast
  have direct: "knowledge_graph ex_kg_env ''kb1'' (ex_store [] 1) =
      Inr ([''graph'' \<mapsto> empty_json, ''mind_map'' \<mapsto> empty_json]
            (''graph'' \<mapsto> ex_graph\<lparr>nodes := Some (take 256 (sorted_reverse get_pagerank ?ns)),
               edges := Some (take 128 (sorted_reverse get_weight
                  (filter (\<lambda>e. e_source e \<noteq> e_target e
                             \<and> e_source e \<in> set (map n_id (take 256 (sorted_reverse get_pagerank ?ns)))
                             \<and> e_target e \<in> set (map n_id (take 256 (sorted_reverse get_pagerank ?ns)))) ?es)))\<rparr>))"
    using h1 h2 h3 h4 h5 h6 h7 h8 by (simp add: knowledge_graph_def Let_def)
  have e1: "edges g1 = Some [\<lparr>e_source = ''c'', e_target = ''a'', e_weight = Some 2\<rparr>,
                            \<lparr>e_source = ''a'', e_target = ''b'', e_weight = None\<rparr>]"
    using kg g1 direct by (auto simp add: sorted_reverse_def get_weight_def get_pagerank_def)
  have n2: "nodes g1 = Some [\<lparr>n_id = ''c'', n_pagerank = Some (9/10)\<rparr>, \<lparr>n_id = ''a'', n_pagerank = Some (1/2)\<rparr>,
                            \<lparr>n_id = ''b'', n_pagerank = None\<rparr>]"
    using n1 ns1 srt by simp
  have h3': "indexExist (ex_store [] 1) ''tenant1'' ''kb1''" using h3 by (simp add: ex_kb_sel)
  have h7': "nodes ex_graph \<noteq> None" using h7 by simp
  from kg g1 n2 e1 have "\<exists>obj g1. knowledge_graph ex_kg_env ''kb1'' (ex_store [] 1) = Inr obj \<and> obj ''graph'' = Some g1
         \<and> nodes g1 = Some [\<lparr>n_id = ''c'', n_pagerank = Some (9/10)\<rparr>, \<lparr>n_id = ''a'', n_pagerank = Some (1/2)\<rparr>,
                            \<lparr>n_id = ''b'', n_pagerank = None\<rparr>]
         \<and> edges g1 = Some [\<lparr>e_source = ''c'', e_target = ''a'', e_weight = Some 2\<rparr>,
                            \<lparr>e_source = ''a'', e_target = ''b'', e_weight = None\<rparr>]"
    by (intro exI conjI)
  with h1 h3' h7' show ?thesis by (intro conjI)
qed

section \<open>Properties of \<^verbatim>\<open>change_status\<close>\<close>

lemma resolvable_status_update:
  assumes "resolvable s j"
  shows "resolvable (DocumentService_update_by_id i (\<lambda>d. d\<lparr>d_status := v\<rparr>) s) j"
proof -
  from assms obtain doc kb where doc: "DocumentService_get_by_id s j = Some doc"
    and kb: "KnowledgebaseService_get_by_id s (d_kb_id doc) = Some kb"
    by (auto simp: resolvable_def)
  let ?d = "if d_id doc = i then doc\<lparr>d_status := v\<rparr> else doc"
  have "DocumentService_get_by_id (DocumentService_update_by_id i (\<lambda>d. d\<lparr>d_status := v\<rparr>) s) j = Some ?d"
    using doc by (simp add: get_by_id_update_by_id)
  moreover have "KnowledgebaseService_get_by_id
                   (DocumentService_update_by_id i (\<lambda>d. d\<lparr>d_status := v\<rparr>) s) (d_kb_id ?d) = Some kb"
    using kb by (simp add: frame)
  ultimately show ?thesis unfolding resolvable_def by blast
qed

lemma resolvable_set_available:
  "resolvable s j \<Longrightarrow> resolvable (docStore_set_available i v tenant kbid s) j"
  by (simp add: resolvable_def frame)

lemma change_status_one_resolvable:
  assumes "resolvable s j"
  shows "resolvable (snd (change_status_one env status i (result, s))) j"
  using assms
  by (auto simp: change_status_one_def Let_def
      intro: resolvable_status_update resolvable_set_available
      split: option.splits call_result.splits bool.splits)

lemma change_status_one_other:
  "j \<noteq> i \<Longrightarrow> fst (change_status_one env status i (result, s)) j = result j"
  by (auto simp: change_status_one_def Let_def split: option.splits call_result.splits bool.splits)

lemma change_status_one_entry:
  assumes "accessible env i" and "resolvable s i"
    and "document_update env i = Returned True" and "docStore_update env i = Returned ok"
  shows "fst (change_status_one env status i (result, s)) i = Some (EntryStatus status)"
  using assms
  by (auto simp: change_status_one_def resolvable_def Let_def split: option.splits)

lemma fold_change_status_other:
  "j \<notin> set doc_ids \<Longrightarrow> fst (fold (change_status_one env status) doc_ids (result, s)) j = result j"
proof (induction doc_ids arbitrary: result s)
  case Nil
  then show ?case by simp
next
  case (Cons i doc_ids)
  obtain r1 s1 where st: "change_status_one env status i (result, s) = (r1, s1)"
    by (cases "change_status_one env status i (result, s)")
  have "r1 j = result j"
    using change_status_one_other [of j i env status result s] Cons.prems st by simp
  with Cons st show ?case by simp
qed

lemma fold_change_status_entry:
  assumes "i \<in> set doc_ids" and "accessible env i" and "resolvable s i"
    and "document_update env i = Returned True" and "docStore_update env i = Returned ok"
  shows "fst (fold (change_status_one env status) doc_ids (result, s)) i = Some (EntryStatus status)"
  using assms(1,3)
proof (induction doc_ids arbitrary: result s)
  case Nil
  then show ?case by simp
next
  case (Cons j doc_ids)
  obtain r1 s1 where st: "change_status_one env status j (result, s) = (r1, s1)"
    by (cases "change_status_one env status j (result, s)")
  have res: "resolvable s1 i"
    using change_status_one_resolvable [OF Cons.prems(2), of env status j result] st by simp
  show ?case
  proof (cases "i \<in> set doc_ids")
    case True
    then show ?thesis using Cons.IH [OF True res] st by simp
  next
    case False
    then have "j = i" using Cons.prems(1) by simp
    then have "r1 i = Some (EntryStatus status)"
      using change_status_one_entry [OF assms(2) Cons.prems(2) assms(4,5), of status result] st by simp
    then show ?thesis using fold_change_status_other [OF False, of env status r1 s1] st by simp
  qed
qed


text \<open>
  Claim C8. For a status of \<open>0\<close> or \<open>1\<close> and every document id of the request that passes
  the authorization check and the document and knowledge-base lookups and whose
  document-row update goes through: the entry of that id in the returned result map is
  \<^verbatim>\<open>{"status": status}\<close>, whether the write of \<^verbatim>\<open>available_int\<close> into the index answers true
  or false. The error entry written for a failed index write is overwritten at once, so
  the failure does not show in the result map.
\<close>

theorem change_status_hides_index_failure:
  assumes "status \<in> set [''0'', ''1'']"
    and "doc_id \<in> set doc_ids"
    and "accessible env doc_id"
    and "DocumentService_get_by_id s doc_id = Some doc"
    and "KnowledgebaseService_get_by_id s (d_kb_id doc) = Some kb"
    and "document_update env doc_id = Returned True"
    and "docStore_update env doc_id = Returned ok"
  shows "\<exists>result. fst (change_status env doc_ids status s) = Inr result
                 \<and> result doc_id = Some (EntryStatus status)"
proof -
  have res: "resolvable s doc_id" using assms(4,5) by (auto simp: resolvable_def)
  obtain r1 s1 where st: "fold (change_status_one env status) doc_ids (Map.empty, s) = (r1, s1)"
    by (cases "fold (change_status_one env status) doc_ids (Map.empty, s)")
  have "r1 doc_id = Some (EntryStatus status)"
    using fold_change_status_entry [OF assms(2,3) res assms(6,7), of status Map.empty] st by simp
  moreover have "fst (change_status env doc_ids status s) = Inr r1"
    using assms(1) st by (simp add: change_status_def)
  ultimately show ?thesis by blast
qed

text \<open>
  C8 on the example store: the index write for \<open>d1\<close> answers false, and the entry of \<open>d1\<close>
  is the status all the same.
\<close>

theorem change_status_hides_index_failure_witness:
  "docStore_update ex_doc_env ''d1'' = Returned False
   \<and> (\<exists>result. fst (change_status ex_doc_env [''d1''] ''0'' (ex_store [ex_doc ''d1'' DONE] 1)) = Inr result
         \<and> result ''d1'' = Some (EntryStatus ''0''))"
proof -
  have h1: "''0'' \<in> set [''0'', ''1'']" by simp
  have h2: "''d1'' \<in> set [''d1'']" by simp
  have h3: "accessible ex_doc_env ''d1''" by (simp add: ex_doc_env_def)
  have h4: "DocumentService_get_by_id (ex_store [ex_doc ''d1'' DONE] 1) ''d1'' = Some (ex_doc ''d1'' DONE)"
    by (rule ex_doc_lookup)
  have h5: "KnowledgebaseService_get_by_id (ex_store [ex_doc ''d1'' DONE] 1) (d_kb_id (ex_doc ''d1'' DONE)) = Some ex_kb"
    by (simp add: ex_doc_lookup ex_lookup)
  have h6: "document_update ex_doc_env ''d1'' = Returned True" by (simp add: ex_doc_env_def)
  have h7: "docStore_update ex_doc_env ''d1'' = Returned False" by (simp add: ex_doc_env_def)
  from h7 change_status_hides_index_failure [OF h1 h2 h3 h4 h5 h6 h7] show ?thesis by (intro conjI)
qed

section \<open>Properties of \<^verbatim>\<open>run\<close>\<close>

subsection \<open>Cancellation\<close>



subsection \<open>Destructive rerun\<close>

text \<open>
  Claim C4, as the code has it. For a document whose run-state is \<open>DONE\<close>, a run request
  with \<^verbatim>\<open>run = RUNNING\<close> and \<^verbatim>\<open>delete = true\<close> reaches the enqueuer with a store \<open>s5\<close> that does
  not depend on the enqueuer and in which: the knowledge base's chunk and token counters
  are down by the document's chunk and token counts; the document's \<^verbatim>\<open>chunk_num\<close> and
  \<^verbatim>\<open>token_num\<close> are zero, its \<^verbatim>\<open>progress_msg\<close> is empty, its progress is 0 and its run-state
  is \<open>RUNNING\<close>; no Task row of the document is left; and the document's partition of
  the index holds no entry of the document. The iteration ends with the enqueuer applied
  to \<open>s5\<close> (or with \<open>s5\<close> itself for a table document without knowledge-base id, which is
  skipped). The document's \<^verbatim>\<open>process_duration\<close> is left as it was.
\<close>

theorem rerun_resets_before_dispatch:
  assumes "r_run req = RUNNING" and "r_delete req"
    and "DocumentService_get_tenant_id s i = Some tenant_id"
    and "DocumentService_get_by_id s i = Some doc"
    and "KnowledgebaseService_get_by_id s (d_kb_id doc) = Some kb"
    and "d_run doc = DONE"
  shows "\<exists>s5 m5 doc5 kb5.
           KnowledgebaseService_get_by_id s5 (d_kb_id doc) = Some kb5
         \<and> k_chunk_num kb5 = k_chunk_num kb - d_chunk_num doc
         \<and> k_token_num kb5 = k_token_num kb - d_token_num doc
         \<and> DocumentService_get_by_id s5 i = Some doc5
         \<and> d_chunk_num doc5 = 0 \<and> d_token_num doc5 = 0 \<and> d_progress_msg doc5 = []
         \<and> d_progress doc5 = 0 \<and> d_run doc5 = RUNNING
         \<and> d_process_duration doc5 = d_process_duration doc
         \<and> (\<forall>t \<in> set (tasks s5). t_doc_id t \<noteq> i)
         \<and> (\<forall>cs. map_of (index s5) (tenant_id, d_kb_id doc) = Some cs \<longrightarrow> (\<forall>c \<in> set cs. c_doc_id c \<noteq> i))
         \<and> (\<forall>qt qd. run_one (env\<lparr>queue_tasks := qt, queue_dataflow := qd\<rparr>) req i m s =
               (None, m5,
                if d_parser_id doc = ParserType_TABLE env \<and> d_kb_id doc = [] then s5
                else if d_pipeline_id doc \<noteq> []
                     then qd tenant_id (d_pipeline_id doc) (new_uuid env) i s5
                     else qt doc tenant_id (fst (get_storage_address env s5 (d_id doc)))
                            (snd (get_storage_address env s5 (d_id doc))) 0 s5))"
proof -
  have id: "d_id doc = i" using assms(4) by (rule get_by_id_d_id)
  define s2 where "s2 = clear_chunk_num_when_rerun i s"
  define s3 where "s3 = DocumentService_update_by_id i (info req) s2"
  define s3' where "s3' = TaskService_filter_delete (\<lambda>t. t_doc_id t = i) s3"
  define s4 where "s4 = (if indexExist s3' tenant_id (d_kb_id doc)
                         then docStore_delete (\<lambda>c. c_doc_id c = i) tenant_id (d_kb_id doc) s3' else s3')"
  define tbl where "tbl = (d_parser_id doc = ParserType_TABLE env \<and> m (d_kb_id doc) = None)"
  define cnt where "cnt = DocumentService_count_by_kb_id s4 (d_kb_id doc)"
  define s5 where "s5 = (if tbl \<and> cnt \<le> 0 \<and> d_kb_id doc \<noteq> []
                         then KnowledgebaseService_delete_field_map (d_kb_id doc) s4 else s4)"
  define m5 where "m5 = (if d_parser_id doc = ParserType_TABLE env \<and> d_kb_id doc = [] then m
                         else if tbl then m(d_kb_id doc \<mapsto> cnt) else m)"
  define kb2 where "kb2 = kb\<lparr>k_chunk_num := k_chunk_num kb - d_chunk_num doc,
                               k_token_num := k_token_num kb - d_token_num doc\<rparr>"
  define doc3 where "doc3 = info req doc"
  have s2_eq: "s2 = KnowledgebaseService_update_by_id (d_kb_id doc)
           (\<lambda>k. k\<lparr>k_chunk_num := k_chunk_num k - d_chunk_num doc,
                   k_token_num := k_token_num k - d_token_num doc\<rparr>) s"
    using assms(4) by (simp add: s2_def clear_chunk_num_when_rerun_def)
  have kid: "k_id kb = d_kb_id doc" using assms(5) by (rule kb_get_by_id_k_id)
  have kb_s2: "KnowledgebaseService_get_by_id s2 (d_kb_id doc) = Some kb2"
    unfolding s2_eq using assms(5) kid by (simp add: kb_get_by_id_update_by_id kb2_def)
  have doc_s2: "DocumentService_get_by_id s2 i = Some doc"
    unfolding s2_eq using assms(4) by (simp add: frame)
  have doc_s3: "DocumentService_get_by_id s3 i = Some doc3"
    unfolding s3_def using doc_s2 id by (simp add: get_by_id_update_by_id info_def Let_def doc3_def)
  have kb_s3: "KnowledgebaseService_get_by_id s3 (d_kb_id doc) = Some kb2"
    unfolding s3_def using kb_s2 by (simp add: frame)
  have doc_s4: "DocumentService_get_by_id s4 i = Some doc3"
    unfolding s4_def s3'_def using doc_s3 by (simp add: frame)
  have kb_s4: "KnowledgebaseService_get_by_id s4 (d_kb_id doc) = Some kb2"
    unfolding s4_def s3'_def using kb_s3 by (simp add: frame)
  have tasks_s4: "\<forall>t \<in> set (tasks s4). t_doc_id t \<noteq> i"
    unfolding s4_def s3'_def by (simp add: frame)
  have index_s4: "\<forall>cs. map_of (index s4) (tenant_id, d_kb_id doc) = Some cs \<longrightarrow> (\<forall>c \<in> set cs. c_doc_id c \<noteq> i)"
    unfolding s4_def by (auto simp: map_of_docStore_delete indexExist_def)
  obtain kb5 where kb_s5: "KnowledgebaseService_get_by_id s5 (d_kb_id doc) = Some kb5"
    and kb5c: "k_chunk_num kb5 = k_chunk_num kb2" and kb5t: "k_token_num kb5 = k_token_num kb2"
    unfolding s5_def using kb_s4 by (cases "tbl \<and> cnt \<le> 0 \<and> d_kb_id doc \<noteq> []") (auto simp: kb_get_by_id_delete_field_map)
  have doc_s5: "DocumentService_get_by_id s5 i = Some doc3"
    unfolding s5_def using doc_s4 by (simp add: frame)
  have tasks_s5: "\<forall>t \<in> set (tasks s5). t_doc_id t \<noteq> i"
    unfolding s5_def using tasks_s4 by (simp add: frame)
  have index_s5: "\<forall>cs. map_of (index s5) (tenant_id, d_kb_id doc) = Some cs \<longrightarrow> (\<forall>c \<in> set cs. c_doc_id c \<noteq> i)"
    unfolding s5_def using index_s4 by (simp add: frame)
  have doc3: "d_chunk_num doc3 = 0" "d_token_num doc3 = 0" "d_progress_msg doc3 = []"
    "d_progress doc3 = 0" "d_run doc3 = RUNNING" "d_process_duration doc3 = d_process_duration doc"
    using assms(1,2) by (simp_all add: doc3_def info_def Let_def)
  have kb5: "k_chunk_num kb5 = k_chunk_num kb - d_chunk_num doc" "k_token_num kb5 = k_token_num kb - d_token_num doc"
    using kb5c kb5t by (simp_all add: kb2_def)
  have run: "run_one (env\<lparr>queue_tasks := qt, queue_dataflow := qd\<rparr>) req i m s =
               (None, m5,
                if d_parser_id doc = ParserType_TABLE env \<and> d_kb_id doc = [] then s5
                else if d_pipeline_id doc \<noteq> []
                     then qd tenant_id (d_pipeline_id doc) (new_uuid env) i s5
                     else qt doc tenant_id (fst (get_storage_address env s5 (d_id doc)))
                            (snd (get_storage_address env s5 (d_id doc))) 0 s5)" for qt qd
    using assms id
    by (simp add: run_one_def Let_def s5_def m5_def cnt_def tbl_def s4_def s3'_def s3_def s2_def
          case_prod_beta)
  have run_all: "\<forall>qt qd. run_one (env\<lparr>queue_tasks := qt, queue_dataflow := qd\<rparr>) req i m s =
               (None, m5,
                if d_parser_id doc = ParserType_TABLE env \<and> d_kb_id doc = [] then s5
                else if d_pipeline_id doc \<noteq> []
                     then qd tenant_id (d_pipeline_id doc) (new_uuid env) i s5
                     else qt doc tenant_id (fst (get_storage_address env s5 (d_id doc)))
                            (snd (get_storage_address env s5 (d_id doc))) 0 s5)"
    using run by (intro allI)
  show ?thesis
    by (rule exI [of _ s5], rule exI [of _ m5], rule exI [of _ doc3], rule exI [of _ kb5])
       (intro conjI kb_s5 kb5 doc_s5 doc3 tasks_s5 index_s5 run_all)
qed

text \<open>C4 on the example store, with the enqueuers of the example environment.\<close>

theorem rerun_resets_before_dispatch_witness:
  "r_run ex_rerun = RUNNING \<and> r_delete ex_rerun \<and> d_run (ex_doc ''d1'' DONE) = DONE
   \<and> k_chunk_num ex_kb = 10 \<and> k_token_num ex_kb = 100
   \<and> d_chunk_num (ex_doc ''d1'' DONE) = 4 \<and> d_token_num (ex_doc ''d1'' DONE) = 40
   \<and> (\<exists>s5 m5 doc5 kb5.
         KnowledgebaseService_get_by_id s5 ''kb1'' = Some kb5 \<and> k_chunk_num kb5 = 6 \<and> k_token_num kb5 = 60
       \<and> DocumentService_get_by_id s5 ''d1'' = Some doc5
       \<and> d_chunk_num doc5 = 0 \<and> d_token_num doc5 = 0 \<and> d_progress_msg doc5 = []
       \<and> ''d1'' \<notin> t_doc_id ` set (tasks s5)
       \<and> run_one ex_doc_env ex_rerun ''d1'' Map.empty (ex_store [ex_doc ''d1'' DONE] 1) =
           (None, m5, queue_tasks ex_doc_env (ex_doc ''d1'' DONE) ''tenant1'' ''kb1'' ''a.pdf'' 0 s5))"
proof -
  have h1: "r_run ex_rerun = RUNNING" and h2: "r_delete ex_rerun" by (simp_all add: ex_rerun_def)
  have h5: "KnowledgebaseService_get_by_id (ex_store [ex_doc ''d1'' DONE] 1) (d_kb_id (ex_doc ''d1'' DONE)) = Some ex_kb"
    by (simp add: ex_doc_lookup ex_lookup)
  have h6: "d_run (ex_doc ''d1'' DONE) = DONE" by (simp add: ex_doc_lookup)
  have k: "k_chunk_num ex_kb = 10" "k_token_num ex_kb = 100" by (simp_all add: ex_kb_def)
  have env: "ex_doc_env\<lparr>queue_tasks := queue_tasks ex_doc_env, queue_dataflow := queue_dataflow ex_doc_env\<rparr>
               = ex_doc_env" by simp
  from rerun_resets_before_dispatch [OF h1 h2 ex_tenant ex_doc_lookup(1) h5 h6, of ex_doc_env Map.empty]
  obtain s5 m5 doc5 kb5 where
        a: "KnowledgebaseService_get_by_id s5 (d_kb_id (ex_doc ''d1'' DONE)) = Some kb5"
    and b: "k_chunk_num kb5 = k_chunk_num ex_kb - d_chunk_num (ex_doc ''d1'' DONE)"
           "k_token_num kb5 = k_token_num ex_kb - d_token_num (ex_doc ''d1'' DONE)"
    and c: "DocumentService_get_by_id s5 ''d1'' = Some doc5"
    and d: "d_chunk_num doc5 = 0" "d_token_num doc5 = 0" "d_progress_msg doc5 = []"
    and e: "\<forall>t \<in> set (tasks s5). t_doc_id t \<noteq> ''d1''"
    and f: "\<forall>qt qd. run_one (ex_doc_env\<lparr>queue_tasks := qt, queue_dataflow := qd\<rparr>) ex_rerun ''d1'' Map.empty
                       (ex_store [ex_doc ''d1'' DONE] 1) =
               (None, m5,
                if d_parser_id (ex_doc ''d1'' DONE) = ParserType_TABLE ex_doc_env \<and> d_kb_id (ex_doc ''d1'' DONE) = [] then s5
                else if d_pipeline_id (ex_doc ''d1'' DONE) \<noteq> []
                     then qd ''tenant1'' (d_pipeline_id (ex_doc ''d1'' DONE)) (new_uuid ex_doc_env) ''d1'' s5
                     else qt (ex_doc ''d1'' DONE) ''tenant1''
                            (fst (get_storage_address ex_doc_env s5 (d_id (ex_doc ''d1'' DONE))))
                            (snd (get_storage_address ex_doc_env s5 (d_id (ex_doc ''d1'' DONE)))) 0 s5)"
    by blast
  have a': "KnowledgebaseService_get_by_id s5 ''kb1'' = Some kb5" using a by (simp add: ex_doc_lookup)
  have b': "k_chunk_num kb5 = 6" "k_token_num kb5 = 60" using b by (simp_all add: k ex_doc_sel)
  have e': "''d1'' \<notin> t_doc_id ` set (tasks s5)" using e by auto
  have f': "run_one ex_doc_env ex_rerun ''d1'' Map.empty (ex_store [ex_doc ''d1'' DONE] 1) =
           (None, m5, queue_tasks ex_doc_env (ex_doc ''d1'' DONE) ''tenant1'' ''kb1'' ''a.pdf'' 0 s5)"
    using f [THEN spec, of "queue_tasks ex_doc_env", THEN spec, of "queue_dataflow ex_doc_env"]
    unfolding env by (simp add: ex_doc_sel ex_doc_lookup ex_env_sel(2,4))
  have "\<exists>s5 m5 doc5 kb5.
         KnowledgebaseService_get_by_id s5 ''kb1'' = Some kb5 \<and> k_chunk_num kb5 = 6 \<and> k_token_num kb5 = 60
       \<and> DocumentService_get_by_id s5 ''d1'' = Some doc5
       \<and> d_chunk_num doc5 = 0 \<and> d_token_num doc5 = 0 \<and> d_progress_msg doc5 = []
       \<and> ''d1'' \<notin> t_doc_id ` set (tasks s5)
       \<and> run_one ex_doc_env ex_rerun ''d1'' Map.empty (ex_store [ex_doc ''d1'' DONE] 1) =
           (None, m5, queue_tasks ex_doc_env (ex_doc ''d1'' DONE) ''tenant1'' ''kb1'' ''a.pdf'' 0 s5)"
    by (rule exI [of _ s5], rule exI [of _ m5], rule exI [of _ doc5], rule exI [of _ kb5])
       (intro conjI a' b' c d e' f')
  with h1 h2 h6 k ex_doc_sel(4,5) show ?thesis by (intro conjI)
qed

text \<open>
  Claim C4 as stated does not hold: after the destructive rerun of the \<open>DONE\<close> example
  document the new Task \<open>t7\<close> is queued and \<^verbatim>\<open>chunk_num\<close> is zero, but \<^verbatim>\<open>process_duration\<close>
  is still 5.
\<close>

theorem rerun_keeps_process_duration_counterexample:
  "d_run (ex_doc ''d1'' DONE) = DONE
   \<and> r_run ex_rerun = RUNNING \<and> r_delete ex_rerun
   \<and> fst (run ex_doc_env ex_rerun (ex_store [ex_doc ''d1'' DONE] 1)) = Inr True
   \<and> map t_id (tasks (snd (run ex_doc_env ex_rerun (ex_store [ex_doc ''d1'' DONE] 1)))) = [''t1'', ''t7'']
   \<and> map d_process_duration (documents (snd (run ex_doc_env ex_rerun (ex_store [ex_doc ''d1'' DONE] 1)))) = [5]
   \<and> map d_chunk_num (documents (snd (run ex_doc_env ex_rerun (ex_store [ex_doc ''d1'' DONE] 1)))) = [0]"
proof -
  have r: "r_run ex_rerun = RUNNING" "r_delete ex_rerun" "r_doc_ids ex_rerun = [''d1'']"
    by (simp_all add: ex_rerun_def)
  have one: "run_one ex_doc_env ex_rerun ''d1'' Map.empty (ex_store [ex_doc ''d1'' DONE] 1) =
      (None, Map.empty,
       queue_tasks ex_doc_env (ex_doc ''d1'' DONE) ''tenant1'' ''kb1'' ''a.pdf'' 0
         (docStore_delete (\<lambda>c. c_doc_id c = ''d1'') ''tenant1'' ''kb1''
           (TaskService_filter_delete (\<lambda>t. t_doc_id t = ''d1'')
             (DocumentService_update_by_id ''d1'' (info ex_rerun)
               (clear_chunk_num_when_rerun ''d1'' (ex_store [ex_doc ''d1'' DONE] 1))))))"
    by (simp add: run_one_def Let_def ex_tenant ex_doc_lookup r ex_env_sel ex_doc_sel frame
          indexExist_def clear_chunk_num_when_rerun_def ex_store_sel)
  have run: "run ex_doc_env ex_rerun (ex_store [ex_doc ''d1'' DONE] 1) =
      (Inr True,
       queue_tasks ex_doc_env (ex_doc ''d1'' DONE) ''tenant1'' ''kb1'' ''a.pdf'' 0
         (docStore_delete (\<lambda>c. c_doc_id c = ''d1'') ''tenant1'' ''kb1''
           (TaskService_filter_delete (\<lambda>t. t_doc_id t = ''d1'')
             (DocumentService_update_by_id ''d1'' (info ex_rerun)
               (clear_chunk_num_when_rerun ''d1'' (ex_store [ex_doc ''d1'' DONE] 1))))))"
    by (simp add: run_def r ex_env_sel one)
  have docs: "documents (clear_chunk_num_when_rerun ''d1'' (ex_store [ex_doc ''d1'' DONE] 1)) = [ex_doc ''d1'' DONE]"
    by (simp add: clear_chunk_num_when_rerun_def ex_doc_lookup frame ex_store_sel)
  have tk: "tasks (clear_chunk_num_when_rerun ''d1'' (ex_store [ex_doc ''d1'' DONE] 1)) = tasks (ex_store [ex_doc ''d1'' DONE] 1)"
    by (simp add: clear_chunk_num_when_rerun_def ex_doc_lookup frame)
  have t: "map t_id (tasks (snd (run ex_doc_env ex_rerun (ex_store [ex_doc ''d1'' DONE] 1)))) = [''t1'', ''t7'']"
    by (simp add: run ex_env_sel frame tk ex_store_sel ex_task_def)
  have d: "map d_process_duration (documents (snd (run ex_doc_env ex_rerun (ex_store [ex_doc ''d1'' DONE] 1)))) = [5]"
    by (simp add: run ex_env_sel frame docs DocumentService_update_by_id_def info_def Let_def r ex_doc_sel ex_doc_lookup)
  have c: "map d_chunk_num (documents (snd (run ex_doc_env ex_rerun (ex_store [ex_doc ''d1'' DONE] 1)))) = [0]"
    by (simp add: run ex_env_sel frame docs DocumentService_update_by_id_def info_def Let_def r ex_doc_sel ex_doc_lookup)
  show ?thesis using r(1,2) run t d c by (simp add: ex_doc_lookup)
qed


section \<open>Properties of \<^verbatim>\<open>rm\<close>\<close>

subsection \<open>The second half of the body keeps the core of the store\<close>

lemma same_core_refl: "same_core s s"
  by (simp add: same_core_def)

lemma same_core_trans: "same_core s s1 \<Longrightarrow> same_core s1 s2 \<Longrightarrow> same_core s s2"
  by (simp add: same_core_def)

lemma keepsD:
  "keeps step \<Longrightarrow> step st = (fl, st1) \<Longrightarrow> same_core (fst st) (fst st1) \<and> (\<forall>r. fl \<noteq> Return r)"
  unfolding keeps_def by blast

lemma keeps_skip: "keeps (skip a)"
  by (simp add: keeps_def skip_def same_core_refl)

lemma keeps_call:
  assumes "\<And>st. same_core (fst st) (fst (snd (act st)))"
  shows "keeps (call env c d act)"
  unfolding keeps_def call_def
  using assms by (auto simp: same_core_refl split: option.splits prod.splits) (metis fst_conv snd_conv)

lemma keeps_then_do:
  assumes "keeps m" and "\<And>a. keeps (f a)"
  shows "keeps (then_do m f)"
proof -
  have "same_core (fst st) (fst st2) \<and> (\<forall>r. fl \<noteq> Return r)" if run: "then_do m f st = (fl, st2)" for st fl st2
  proof -
    obtain fl1 st1 where Pair: "m st = (fl1, st1)" by (cases "m st")
    then have m: "same_core (fst st) (fst st1)" and nr: "\<forall>r. fl1 \<noteq> Return r"
      using keepsD [OF assms(1) Pair] by blast+
    show ?thesis
    proof (cases fl1)
      case (Next a)
      then have "f a st1 = (fl, st2)" using run Pair by (simp add: then_do_def)
      then have "same_core (fst st1) (fst st2)" and "\<forall>r. fl \<noteq> Return r"
        using keepsD [OF assms(2)] by blast+
      with m show ?thesis by (blast intro: same_core_trans)
    next
      case (Raise e)
      then show ?thesis using run Pair m by (auto simp add: then_do_def)
    next
      case (Return r)
      then show ?thesis using nr by simp
    qed
  qed
  then show ?thesis unfolding keeps_def by blast
qed

lemma keeps_if: "keeps a \<Longrightarrow> keeps b \<Longrightarrow> keeps (if c then a else b)"
  by simp

lemma keeps_case_list:
  "keeps a \<Longrightarrow> (\<And>x xs. keeps (b x xs)) \<Longrightarrow> keeps (case l of [] \<Rightarrow> a | x # xs \<Rightarrow> b x xs)"
  by (cases l) simp_all

lemma keeps_state_if:
  assumes "keeps a" and "keeps b"
  shows "keeps (\<lambda>(s, m). if c s m then a (s, m) else b (s, m))"
  using assms unfolding keeps_def by (auto split: if_splits)

lemma keeps_map_update: "keeps (\<lambda>(s, m). skip a (s, g m))"
  by (simp add: keeps_def skip_def same_core_refl split: prod.splits)

lemma kb_core_delete_field_map:
  "map (\<lambda>k. (k_id k, k_tenant_id k)) (knowledgebases (KnowledgebaseService_delete_field_map kb s))
     = map (\<lambda>k. (k_id k, k_tenant_id k)) (knowledgebases s)"
  by (simp add: KnowledgebaseService_delete_field_map_def KnowledgebaseService_update_by_id_def comp_def)

lemma keeps_rm_unlink: "keeps (rm_unlink env doc_id doc b n)"
  unfolding rm_unlink_def
  apply (intro keeps_then_do keeps_if keeps_case_list keeps_skip keeps_call keeps_state_if keeps_map_update)
  apply (simp_all add: same_core_def kb_core_delete_field_map frame split: prod.splits)
  done

subsection \<open>One iteration\<close>

lemma rm_one_cases:
  "rm_one env x (s, m) =
    (case faults env GetById x of Some e \<Rightarrow> (Raise e, (s, m)) | None \<Rightarrow>
    (case DocumentService_get_by_id s x of
       None \<Rightarrow> (Return (DataError ''Document not found!''), (s, m))
     | Some doc \<Rightarrow>
    (case faults env GetTenantId x of Some e \<Rightarrow> (Raise e, (s, m)) | None \<Rightarrow>
    (case DocumentService_get_tenant_id s x of
       None \<Rightarrow> (Return (DataError ''Tenant not found!''), (s, m))
     | Some tenant_id \<Rightarrow>
    (case faults env GetStorageAddress x of Some e \<Rightarrow> (Raise e, (s, m)) | None \<Rightarrow>
    (case faults env TaskFilterDelete x of Some e \<Rightarrow> (Raise e, (s, m)) | None \<Rightarrow>
    (case faults env RemoveDocument x of
       Some e \<Rightarrow> (Raise e, (TaskService_filter_delete (\<lambda>t. t_doc_id t = x) s, m))
     | None \<Rightarrow>
       if \<not> fst (remove_document doc tenant_id (TaskService_filter_delete (\<lambda>t. t_doc_id t = x) s))
       then (Return (DataError ''Database error (Document removal)!''),
             (snd (remove_document doc tenant_id (TaskService_filter_delete (\<lambda>t. t_doc_id t = x) s)), m))
       else rm_unlink env x doc (fst (get_storage_address env s x)) (snd (get_storage_address env s x))
              (snd (remove_document doc tenant_id (TaskService_filter_delete (\<lambda>t. t_doc_id t = x) s)), m))))))))"
  by (simp add: rm_one_def then_do_def call_def return_error_def split: option.splits prod.splits)

lemma remove_document_sel:
  "fst (remove_document doc t s) \<longleftrightarrow> (\<exists>d \<in> set (documents s). d_id d = d_id doc)"
  "documents (snd (remove_document doc t s)) = filter (\<lambda>d. d_id d \<noteq> d_id doc) (documents s)"
  "tasks (snd (remove_document doc t s)) = tasks s"
  "knowledgebases (snd (remove_document doc t s)) = knowledgebases s"
  "map_of (index (snd (remove_document doc t s))) p =
     (if p = (t, d_kb_id doc) then map_option (filter (\<lambda>c. c_doc_id c \<noteq> d_id doc)) (map_of (index s) p)
      else map_of (index s) p)"
  by (simp_all add: remove_document_def Let_def frame map_of_docStore_delete)

lemma get_by_id_in_set: "DocumentService_get_by_id s x = Some doc \<Longrightarrow> doc \<in> set (documents s)"
  by (auto simp: DocumentService_get_by_id_def find_Some_iff)

lemma get_by_id_None_iff: "DocumentService_get_by_id s x = None \<longleftrightarrow> (\<forall>d \<in> set (documents s). d_id d \<noteq> x)"
  by (auto simp: DocumentService_get_by_id_def find_None_iff)





lemma rm_unlink_same_core:
  "rm_unlink env x doc b n (s, m) = (fl, (s1, m1)) \<Longrightarrow> same_core s s1"
  using keepsD [OF keeps_rm_unlink, of env x doc b n "(s, m)" fl "(s1, m1)"] by simp



lemma files_frame [frame]:
  "file2documents (TaskService_filter_delete cond s) = file2documents s"
  "files (TaskService_filter_delete cond s) = files s"
  "file2documents (snd (remove_document doc t s)) = file2documents s"
  "files (snd (remove_document doc t s)) = files s"
  by (simp_all add: TaskService_filter_delete_def remove_document_def docStore_delete_def Let_def)











lemma rm_unlink_no_fault:
  assumes "\<And>c. faults env c x = None"
  shows "\<exists>st1. rm_unlink env x doc b n st = (Next (), st1)"
  by (cases st)
     (simp add: rm_unlink_def then_do_def call_def skip_def assms split: list.splits prod.splits)

lemma rm_one_no_fault:
  assumes "DocumentService_get_tenant_id s x = Some t" and "DocumentService_get_by_id s x = Some doc"
    and "\<And>c. faults env c x = None"
  shows "\<exists>s1 m1. rm_one env x (s, m) = (Next (), (s1, m1))
           \<and> DocumentService_get_by_id s1 x = None
           \<and> (\<forall>t \<in> set (tasks s1). t_doc_id t \<noteq> x)
           \<and> (\<forall>cs. map_of (index s1) (t, d_kb_id doc) = Some cs \<longrightarrow> (\<forall>c \<in> set cs. c_doc_id c \<noteq> x))"
proof -
  have id: "d_id doc = x" using assms(2) by (rule get_by_id_d_id)
  let ?s2 = "snd (remove_document doc t (TaskService_filter_delete (\<lambda>t. t_doc_id t = x) s))"
  let ?b = "fst (get_storage_address env s x)" and ?n = "snd (get_storage_address env s x)"
  have rem: "fst (remove_document doc t (TaskService_filter_delete (\<lambda>t. t_doc_id t = x) s))"
    using get_by_id_in_set [OF assms(2)] by (auto simp: remove_document_sel frame)
  obtain s1 m1 where tail: "rm_unlink env x doc ?b ?n (?s2, m) = (Next (), (s1, m1))"
    using rm_unlink_no_fault [of env x doc ?b ?n "(?s2, m)"] assms(3) by (metis surj_pair)
  have core: "same_core ?s2 s1" using tail by (rule rm_unlink_same_core)
  have one: "rm_one env x (s, m) = (Next (), (s1, m1))"
    using assms rem tail by (simp add: rm_one_cases)
  have d: "DocumentService_get_by_id s1 x = None"
    using core id by (simp add: get_by_id_None_iff same_core_def remove_document_sel)
  have tk: "\<forall>t \<in> set (tasks s1). t_doc_id t \<noteq> x"
    using core by (simp add: same_core_def remove_document_sel frame)
  have ix: "\<forall>cs. map_of (index s1) (t, d_kb_id doc) = Some cs \<longrightarrow> (\<forall>c \<in> set cs. c_doc_id c \<noteq> x)"
    using core id by (auto simp: same_core_def remove_document_sel)
  from one d tk ix show ?thesis by blast
qed


lemma rm_one_not_found:
  "faults env GetById x = None \<Longrightarrow> DocumentService_get_by_id s x = None \<Longrightarrow>
   rm_one env x (s, m) = (Return (DataError ''Document not found!''), (s, m))"
  by (simp add: rm_one_cases)

subsection \<open>The loop over distinct ids that resolve\<close>










subsection \<open>Deleting one document, and deleting it again\<close>

lemma rm_single_no_fault:
  assumes "accessible4deletion env d" and "\<And>c. faults env c d = None"
    and "DocumentService_get_by_id s d = Some doc" and "DocumentService_get_tenant_id s d = Some t"
  shows "fst (rm env [d] s) = Inr True"
    and "DocumentService_get_by_id (snd (rm env [d] s)) d = None"
    and "\<forall>t \<in> set (tasks (snd (rm env [d] s))). t_doc_id t \<noteq> d"
    and "\<forall>cs. map_of (index (snd (rm env [d] s))) (t, d_kb_id doc) = Some cs
            \<longrightarrow> (\<forall>c \<in> set cs. c_doc_id c \<noteq> d)"
proof -
  from rm_one_no_fault [where m = Map.empty, OF assms(4,3,2)]
  obtain s1 m1 where one: "rm_one env d (s, Map.empty) = (Next (), (s1, m1))"
    and a: "DocumentService_get_by_id s1 d = None"
    and b: "\<forall>t \<in> set (tasks s1). t_doc_id t \<noteq> d"
    and c: "\<forall>cs. map_of (index s1) (t, d_kb_id doc) = Some cs \<longrightarrow> (\<forall>c \<in> set cs. c_doc_id c \<noteq> d)"
    by blast
  have rm: "rm env [d] s = (Inr True, s1)"
    using assms(1) one by (simp add: rm_def)
  show "fst (rm env [d] s) = Inr True" by (simp add: rm)
  show "DocumentService_get_by_id (snd (rm env [d] s)) d = None" using a by (simp add: rm)
  show "\<forall>t \<in> set (tasks (snd (rm env [d] s))). t_doc_id t \<noteq> d" using b by (simp add: rm)
  show "\<forall>cs. map_of (index (snd (rm env [d] s))) (t, d_kb_id doc) = Some cs
            \<longrightarrow> (\<forall>c \<in> set cs. c_doc_id c \<noteq> d)" using c by (simp add: rm)
qed

lemma rm_missing_document:
  assumes "faults env GetById d = None" and "DocumentService_get_by_id s d = None"
  shows "rm env [d] s =
           (Inl (if accessible4deletion env d then DataError ''Document not found!''
                 else AuthenticationError ''No authorization.''), s)"
  using assms by (simp add: rm_def rm_one_not_found)

text \<open>
  Claim C5, as the code has it. Deleting a document that the caller may delete and that
  resolves to a tenant, with no service call raising, succeeds and leaves no Document row
  of that id, no Task row that references it, and no index entry keyed by it in the
  document's partition of the index. A second delete of the same id is an error and
  changes nothing: "Document not found!", or "No authorization." when the authorization
  check already refuses the id.
\<close>

theorem rm_deletes_and_second_call_fails:
  assumes "accessible4deletion env d" and "\<forall>c. faults env c d = None"
    and "DocumentService_get_by_id s d = Some doc" and "DocumentService_get_tenant_id s d = Some t"
  shows "fst (rm env [d] s) = Inr True
       \<and> DocumentService_get_by_id (snd (rm env [d] s)) d = None
       \<and> (\<forall>t \<in> set (tasks (snd (rm env [d] s))). t_doc_id t \<noteq> d)
       \<and> (\<forall>cs. map_of (index (snd (rm env [d] s))) (t, d_kb_id doc) = Some cs
              \<longrightarrow> (\<forall>c \<in> set cs. c_doc_id c \<noteq> d))
       \<and> (\<forall>env2. faults env2 GetById d = None \<longrightarrow>
             rm env2 [d] (snd (rm env [d] s)) =
               (Inl (if accessible4deletion env2 d then DataError ''Document not found!''
                     else AuthenticationError ''No authorization.''),
                snd (rm env [d] s)))"
proof -
  have nf: "faults env c d = None" for c using assms(2) by simp
  note first = rm_single_no_fault [OF assms(1) nf assms(3,4)]
  have again: "\<forall>env2. faults env2 GetById d = None \<longrightarrow>
             rm env2 [d] (snd (rm env [d] s)) =
               (Inl (if accessible4deletion env2 d then DataError ''Document not found!''
                     else AuthenticationError ''No authorization.''),
                snd (rm env [d] s))"
    using rm_missing_document [OF _ first(2)] by blast
  from first again show ?thesis by (intro conjI)
qed

text \<open>C5 on the example store.\<close>

theorem rm_deletes_and_second_call_fails_witness:
  "accessible4deletion ex_doc_env ''d1''
   \<and> DocumentService_get_by_id (ex_store [ex_doc ''d1'' DONE] 1) ''d1'' = Some (ex_doc ''d1'' DONE)
   \<and> fst (rm ex_doc_env [''d1''] (ex_store [ex_doc ''d1'' DONE] 1)) = Inr True
   \<and> DocumentService_get_by_id (snd (rm ex_doc_env [''d1''] (ex_store [ex_doc ''d1'' DONE] 1))) ''d1'' = None
   \<and> ''d1'' \<notin> t_doc_id ` set (tasks (snd (rm ex_doc_env [''d1''] (ex_store [ex_doc ''d1'' DONE] 1))))
   \<and> rm ex_doc_env [''d1''] (snd (rm ex_doc_env [''d1''] (ex_store [ex_doc ''d1'' DONE] 1)))
       = (Inl (DataError ''Document not found!''), snd (rm ex_doc_env [''d1''] (ex_store [ex_doc ''d1'' DONE] 1)))"
proof -
  have h1: "accessible4deletion ex_doc_env ''d1''" by (rule ex_env_del)
  have h2: "\<forall>c. faults ex_doc_env c ''d1'' = None" by (simp add: ex_env_del)
  note th = rm_deletes_and_second_call_fails [OF h1 h2 ex_doc_lookup(1) ex_tenant, of DONE 1]
  from th have a: "fst (rm ex_doc_env [''d1''] (ex_store [ex_doc ''d1'' DONE] 1)) = Inr True" by blast
  from th have b: "DocumentService_get_by_id (snd (rm ex_doc_env [''d1''] (ex_store [ex_doc ''d1'' DONE] 1))) ''d1'' = None"
    by blast
  from th have "\<forall>t \<in> set (tasks (snd (rm ex_doc_env [''d1''] (ex_store [ex_doc ''d1'' DONE] 1)))). t_doc_id t \<noteq> ''d1''"
    by blast
  then have c: "''d1'' \<notin> t_doc_id ` set (tasks (snd (rm ex_doc_env [''d1''] (ex_store [ex_doc ''d1'' DONE] 1))))"
    by auto
  from th have "faults ex_doc_env GetById ''d1'' = None \<longrightarrow>
       rm ex_doc_env [''d1''] (snd (rm ex_doc_env [''d1''] (ex_store [ex_doc ''d1'' DONE] 1)))
       = (Inl (if accessible4deletion ex_doc_env ''d1'' then DataError ''Document not found!''
               else AuthenticationError ''No authorization.''),
          snd (rm ex_doc_env [''d1''] (ex_store [ex_doc ''d1'' DONE] 1)))"
    by blast
  then have d: "rm ex_doc_env [''d1''] (snd (rm ex_doc_env [''d1''] (ex_store [ex_doc ''d1'' DONE] 1)))
       = (Inl (DataError ''Document not found!''), snd (rm ex_doc_env [''d1''] (ex_store [ex_doc ''d1'' DONE] 1)))"
    by (simp add: ex_env_del)
  from h1 ex_doc_lookup(1) [of DONE 1] a b c d show ?thesis by (intro conjI)
qed

text \<open>
  Claim C5 as stated does not hold: on the example store the first delete of \<open>d1\<close>
  succeeds and the second is answered with the error "Document not found!".
\<close>

theorem rm_second_call_counterexample:
  "fst (rm ex_doc_env [''d1''] (ex_store [ex_doc ''d1'' DONE] 1)) = Inr True
   \<and> fst (rm ex_doc_env [''d1''] (snd (rm ex_doc_env [''d1''] (ex_store [ex_doc ''d1'' DONE] 1))))
       = Inl (DataError ''Document not found!'')"
proof -
  have acc: "accessible4deletion ex_doc_env ''d1''" by (rule ex_env_del)
  have nf: "faults ex_doc_env c ''d1'' = None" for c by (rule ex_env_del)
  have doc: "DocumentService_get_by_id (ex_store [ex_doc ''d1'' DONE] 1) ''d1'' = Some (ex_doc ''d1'' DONE)"
    by (rule ex_doc_lookup)
  have ten: "DocumentService_get_tenant_id (ex_store [ex_doc ''d1'' DONE] 1) ''d1'' = Some ''tenant1''"
    by (rule ex_tenant)
  note first = rm_single_no_fault [OF acc nf doc ten]
  have "rm ex_doc_env [''d1''] (snd (rm ex_doc_env [''d1''] (ex_store [ex_doc ''d1'' DONE] 1)))
       = (Inl (DataError ''Document not found!''), snd (rm ex_doc_env [''d1''] (ex_store [ex_doc ''d1'' DONE] 1)))"
    using rm_missing_document [OF nf first(2)] by (simp add: ex_env_del)
  with first(1) show ?thesis by simp
qed

subsection \<open>Bulk deletion\<close>








end
